theory Spec2Isabelle
  imports Complex_Main "HOL-Library.Sublist"
begin

section \<open>Platform functions the client relies on\<close>

text \<open>
  JavaScript strings are modelled as \<^typ>\<open>string\<close>: a list of code units below 256, the
  Latin-1 range. Counts and millisecond timestamps are integers, held as \<^typ>\<open>int\<close>; a number
  that \<^verbatim>\<open>parseInt\<close> or a product yields is a double, and \<open>js_number\<close> below gives the
  double nearest to an integer. The functions of this section are the built-ins the repository
  calls (\<^verbatim>\<open>Number.prototype.toString\<close>, \<^verbatim>\<open>parseInt\<close>,
  \<^verbatim>\<open>String.prototype.trim\<close>, \<^verbatim>\<open>toLowerCase\<close>, \<^verbatim>\<open>includes\<close>,
  \<^verbatim>\<open>btoa\<close>, the serialiser of \<^verbatim>\<open>URLSearchParams\<close>). \<open>toString\<close> is the decimal
  rendering, which a JavaScript number has below \<open>10\<^sup>2\<^sup>1\<close> in magnitude.
\<close>

definition digit_char :: "nat \<Rightarrow> char" where
  "digit_char d = char_of (48 + d)"

fun show_nat :: "nat \<Rightarrow> string" where
  "show_nat n = (if n < 10 then [digit_char n] else show_nat (n div 10) @ [digit_char (n mod 10)])"

declare show_nat.simps [simp del]

definition toString :: "int \<Rightarrow> string" where
  "toString i = (if i < 0 then CHR ''-'' # show_nat (nat (- i)) else show_nat (nat i))"

text \<open>
  White space and line terminators of the language that lie below 256: tab, line feed,
  vertical tab, form feed, carriage return, space and the no-break space U+00A0.
\<close>

definition is_space :: "char \<Rightarrow> bool" where
  "is_space c =
     (c \<in> set [CHR '' '', CHR 0x09, CHR 0x0A, CHR 0x0B, CHR 0x0C, CHR 0x0D, CHR 0xA0])"

definition is_digit :: "char \<Rightarrow> bool" where
  "is_digit c = (48 \<le> (of_char c :: nat) \<and> (of_char c :: nat) \<le> 57)"

definition digit_val :: "char \<Rightarrow> int" where
  "digit_val c = int (of_char c) - 48"

definition is_hex_digit :: "char \<Rightarrow> bool" where
  "is_hex_digit c = (is_digit c
     \<or> (65 \<le> (of_char c :: nat) \<and> (of_char c :: nat) \<le> 70)
     \<or> (97 \<le> (of_char c :: nat) \<and> (of_char c :: nat) \<le> 102))"

definition hex_val :: "char \<Rightarrow> int" where
  "hex_val c = (if is_digit c then digit_val c
     else if (of_char c :: nat) \<le> 70 then int (of_char c) - 55
     else int (of_char c) - 87)"

definition digits_value :: "int \<Rightarrow> (char \<Rightarrow> int) \<Rightarrow> string \<Rightarrow> int" where
  "digits_value radix val ds = foldl (\<lambda>a c. radix * a + val c) 0 ds"

text \<open>
  The Number value of a mathematical integer: the integer itself below \<open>2\<^sup>5\<^sup>3\<close> in
  magnitude, otherwise the nearest double, a tie going to the even significand; \<^const>\<open>None\<close>
  when the result is an infinity. \<open>drop_bits m\<close> is the number of low bits a significand of
  53 bits leaves out.
\<close>

fun drop_bits :: "nat \<Rightarrow> nat" where
  "drop_bits m = (if m < 2 ^ 53 then 0 else Suc (drop_bits (m div 2)))"

declare drop_bits.simps [simp del]

definition js_number :: "int \<Rightarrow> int option" where
  "js_number i =
     (if \<bar>i\<bar> < 2 ^ 53 then Some i
      else (let m = nat \<bar>i\<bar>;
                e = drop_bits m;
                q = m div 2 ^ e;
                r = m mod 2 ^ e;
                half = 2 ^ (e - 1);
                q' = (if r > half \<or> (r = half \<and> odd q) then q + 1 else q);
                v = q' * 2 ^ e
            in if v \<ge> 2 ^ 1024 then None else Some (sgn i * int v)))"

text \<open>
  \<^verbatim>\<open>parseInt(s)\<close> with no radix: leading white space is skipped, a sign is read, a
  \<^verbatim>\<open>0x\<close> prefix selects base 16, and the longest prefix of digits is the mathematical
  value, which is returned as a Number. \<^const>\<open>None\<close> stands for a result that is not a finite
  number: \<^verbatim>\<open>NaN\<close> (no digit could be read) or an infinity.
\<close>

definition parse_digits :: "string \<Rightarrow> int option" where
  "parse_digits s =
     (if take 2 s = ''0x'' \<or> take 2 s = ''0X''
      then (let ds = takeWhile is_hex_digit (drop 2 s)
            in if ds = [] then None else Some (digits_value 16 hex_val ds))
      else (let ds = takeWhile is_digit s
            in if ds = [] then None else Some (digits_value 10 digit_val ds)))"

definition parseInt :: "string \<Rightarrow> int option" where
  "parseInt s =
     (case dropWhile is_space s of
        [] \<Rightarrow> None
      | c # r \<Rightarrow>
          (case (if c = CHR ''-'' then map_option uminus (parse_digits r)
                 else if c = CHR ''+'' then parse_digits r
                 else parse_digits (c # r)) of
             None \<Rightarrow> None
           | Some mathInt \<Rightarrow> js_number mathInt))"

text \<open>The product of two Numbers that hold integers.\<close>

definition js_times :: "int option \<Rightarrow> int option \<Rightarrow> int option" where
  "js_times a b = (case (a, b) of (Some x, Some y) \<Rightarrow> js_number (x * y) | _ \<Rightarrow> None)"

definition trim :: "string \<Rightarrow> string" where
  "trim s = rev (dropWhile is_space (rev (dropWhile is_space s)))"

text \<open>
  Lower case in the Latin-1 range: the letters A to Z, and the accented capitals U+00C0 to
  U+00DE without the multiplication sign U+00D7.
\<close>

definition lower_char :: "char \<Rightarrow> char" where
  "lower_char c =
     (let n = (of_char c :: nat)
      in if (65 \<le> n \<and> n \<le> 90) \<or> (192 \<le> n \<and> n \<le> 222 \<and> n \<noteq> 215)
         then char_of (n + 32) else c)"

definition toLowerCase :: "string \<Rightarrow> string" where
  "toLowerCase s = map lower_char s"

fun includes_str :: "string \<Rightarrow> string \<Rightarrow> bool" where
  "includes_str [] t = (t = [])"
| "includes_str (c # cs) t = (prefix t (c # cs) \<or> includes_str cs t)"

definition b64_char :: "nat \<Rightarrow> char" where
  "b64_char n = ''ABCDEFGHIJKLMNOPQRSTUVWXYZabcdefghijklmnopqrstuvwxyz0123456789+/'' ! (n mod 64)"

fun btoa_bytes :: "nat list \<Rightarrow> string" where
  "btoa_bytes [] = []"
| "btoa_bytes [a] = [b64_char (a div 4), b64_char ((a mod 4) * 16), CHR ''='', CHR ''='']"
| "btoa_bytes [a, b] =
     [b64_char (a div 4), b64_char ((a mod 4) * 16 + b div 16), b64_char ((b mod 16) * 4),
      CHR ''='']"
| "btoa_bytes (a # b # c # r) =
     [b64_char (a div 4), b64_char ((a mod 4) * 16 + b div 16),
      b64_char ((b mod 16) * 4 + c div 64), b64_char (c mod 64)] @ btoa_bytes r"

definition btoa :: "string \<Rightarrow> string" where
  "btoa s = btoa_bytes (map of_char s)"

definition hex_char :: "nat \<Rightarrow> char" where
  "hex_char n = ''0123456789ABCDEF'' ! (n mod 16)"

definition url_safe :: "char \<Rightarrow> bool" where
  "url_safe c = (let n = (of_char c :: nat) in
     n = 42 \<or> n = 45 \<or> n = 46 \<or> n = 95
     \<or> (48 \<le> n \<and> n \<le> 57) \<or> (65 \<le> n \<and> n \<le> 90) \<or> (97 \<le> n \<and> n \<le> 122))"

definition percent_byte :: "nat \<Rightarrow> string" where
  "percent_byte b = [CHR ''%'', hex_char (b div 16), hex_char (b mod 16)]"

text \<open>A code unit from 128 on is encoded through the two bytes of its UTF-8 form.\<close>

definition encode_char :: "char \<Rightarrow> string" where
  "encode_char c =
     (let n = (of_char c :: nat)
      in if c = CHR '' '' then ''+''
         else if url_safe c then [c]
         else if n < 128 then percent_byte n
         else percent_byte (192 + n div 64) @ percent_byte (128 + n mod 64))"

definition form_encode :: "string \<Rightarrow> string" where
  "form_encode s = concat (map encode_char s)"

text \<open>\<^verbatim>\<open>new URLSearchParams({...}).toString()\<close>: the pairs in insertion order.\<close>

fun params_toString :: "(string \<times> string) list \<Rightarrow> string" where
  "params_toString [] = []"
| "params_toString [(k, v)] = form_encode k @ ''='' @ form_encode v"
| "params_toString ((k, v) # p # ps) =
     form_encode k @ ''='' @ form_encode v @ ''&'' @ params_toString (p # ps)"

section \<open>Data model of the client module\<close>

text \<open>
  \<^verbatim>\<open>RateLimitInfo\<close>. The fields are Numbers produced by \<^verbatim>\<open>parseInt\<close>;
  \<^const>\<open>None\<close> is a value that is not a finite number, which the JSON round trip through the
  medium turns into \<^verbatim>\<open>null\<close>. The field \<^verbatim>\<open>total\<close> is named \<open>total_limit\<close>
  here.
\<close>

record RateLimitInfo =
  remaining :: "int option"
  reset :: "int option"
  total_limit :: "int option"

text \<open>
  \<^verbatim>\<open>GitHubUser\<close>, with the fields the client and the main view read. The field
  \<open>created_at\<close> holds \<^verbatim>\<open>new Date(created_at).getTime()\<close>, the creation instant in
  milliseconds since the epoch; the display-only fields are left out. The fields
  \<^verbatim>\<open>id\<close> and \<^verbatim>\<open>location\<close> are named \<open>user_id\<close> and \<open>user_location\<close> here.
\<close>

record GitHubUser =
  user_id :: int
  login :: string
  user_location :: "string option"
  bio :: "string option"
  public_repos :: int
  followers :: int
  created_at :: int

datatype sort_field = Followers | Repositories | Joined

datatype sort_order = Asc | Desc

datatype experience = Junior | Mid | Senior

text \<open>\<^verbatim>\<open>SearchFilters\<close>: an optional field that is \<^verbatim>\<open>undefined\<close> is \<^const>\<open>None\<close>.\<close>

record SearchFilters =
  query :: string
  language :: "string option"
  location :: "string option"
  minRepos :: "int option"
  minFollowers :: "int option"
  sortBy :: "sort_field option"
  order :: "sort_order option"
  experienceLevel :: "experience option"

text \<open>
  The decoded body of a search response: a JSON object with the properties
  \<^verbatim>\<open>items\<close>, \<^verbatim>\<open>total_count\<close> and \<^verbatim>\<open>incomplete_results\<close>. The client does
  not check the shape of a body, so each property may be missing, and reading it then gives
  \<^verbatim>\<open>undefined\<close> (\<^const>\<open>None\<close>). A property that is present has the type the
  interface declares. \<open>search_result\<close> is what \<^verbatim>\<open>GitHubAPI.searchUsers\<close> returns,
  the three properties copied.
\<close>

record search_body =
  items :: "GitHubUser list option"
  body_total_count :: "int option"
  body_incomplete_results :: "bool option"

record search_result =
  users :: "GitHubUser list option"
  total_count :: "int option"
  incomplete_results :: "bool option"

text \<open>
  JavaScript truthiness of an optional string and of an optional number: \<^verbatim>\<open>undefined\<close>,
  the empty string and \<open>0\<close> are falsy.
\<close>

definition truthy_str :: "string option \<Rightarrow> bool" where
  "truthy_str v = (case v of None \<Rightarrow> False | Some s \<Rightarrow> s \<noteq> [])"

definition truthy_num :: "int option \<Rightarrow> bool" where
  "truthy_num v = (case v of None \<Rightarrow> False | Some n \<Rightarrow> n \<noteq> 0)"

section \<open>The persisted medium, the cache and the rate-limit tracker\<close>

text \<open>
  \<^verbatim>\<open>localStorage\<close>. The cache keys all start with \<^verbatim>\<open>github_cache_\<close> and the
  tracker has the one key \<^verbatim>\<open>github_rate_limit\<close>, so the two never meet and are kept as
  two fields. A cache slot holds what \<^verbatim>\<open>JSON.parse\<close> gives back: the payload and its
  timestamp, or \<open>Corrupt\<close> when the stored text does not parse (an empty text included).
  \<open>writable\<close> says whether \<^verbatim>\<open>setItem\<close> succeeds; when it is false every write throws
  (quota exhausted or storage disabled).
\<close>

datatype 'a cache_slot = Entry 'a int | Corrupt

record 'a storage =
  cache :: "string \<rightharpoonup> 'a cache_slot"
  rate_limit :: "RateLimitInfo option"
  writable :: bool

datatype api_error =
    RateLimitExceeded
  | RequestFailed nat string
  | NetworkError string
  | DecodeFailure string
  | StorageError string

text \<open>The \<^verbatim>\<open>message\<close> of the \<^verbatim>\<open>Error\<close> each failure throws.\<close>

fun error_message :: "api_error \<Rightarrow> string" where
  "error_message RateLimitExceeded =
     ''Rate limit exceeded. Please try again later or add a GitHub token.''"
| "error_message (RequestFailed st txt) = ''GitHub API error: '' @ toString (int st) @ '' '' @ txt"
| "error_message (NetworkError m) = m"
| "error_message (DecodeFailure m) = m"
| "error_message (StorageError m) = m"

definition GITHUB_API_BASE :: string where
  "GITHUB_API_BASE = ''https://api.github.com''"

definition CACHE_DURATION :: int where
  "CACHE_DURATION = 5 * 60 * 1000"

definition CACHE_PREFIX :: string where
  "CACHE_PREFIX = ''github_cache_''"

definition getCacheKey :: "string \<Rightarrow> string" where
  "getCacheKey url = CACHE_PREFIX @ btoa url"

text \<open>
  \<^verbatim>\<open>getCachedData\<close> at clock reading \<open>now\<close>: the payload or \<^verbatim>\<open>null\<close>
  (\<^const>\<open>None\<close>), and the medium afterwards. Every caller instantiates the payload type with
  an object or array type, whose values are never \<^verbatim>\<open>null\<close> and always truthy, so the
  test \<^verbatim>\<open>if (cached)\<close> of \<^verbatim>\<open>fetchWithCache\<close> is the test for a returned payload.
\<close>

definition getCachedData :: "int \<Rightarrow> string \<Rightarrow> 'a storage \<Rightarrow> 'a option \<times> 'a storage" where
  "getCachedData now cacheKey st =
     (case cache st cacheKey of
        None \<Rightarrow> (None, st)
      | Some Corrupt \<Rightarrow> (None, st)
      | Some (Entry d timestamp) \<Rightarrow>
          if now - timestamp > CACHE_DURATION
          then (None, st\<lparr>cache := (cache st)(cacheKey := None)\<rparr>)
          else (Some d, st))"

text \<open>\<^verbatim>\<open>setCachedData\<close>: a write that throws is caught and only logged.\<close>

definition setCachedData :: "int \<Rightarrow> string \<Rightarrow> 'a \<Rightarrow> 'a storage \<Rightarrow> 'a storage" where
  "setCachedData now cacheKey d st =
     (if writable st then st\<lparr>cache := (cache st)(cacheKey \<mapsto> Entry d now)\<rparr> else st)"

text \<open>
  \<^verbatim>\<open>updateRateLimit\<close>: the headers are a map from the lower-case header name to its
  value. The write is not guarded, so a refused write is thrown to the caller.
\<close>

definition updateRateLimit :: "(string \<rightharpoonup> string) \<Rightarrow> 'a storage \<Rightarrow> api_error + 'a storage" where
  "updateRateLimit hdrs st =
     (let remaining_h = hdrs ''x-ratelimit-remaining'';
          reset_h = hdrs ''x-ratelimit-reset'';
          total_h = hdrs ''x-ratelimit-limit''
      in if truthy_str remaining_h \<and> truthy_str reset_h \<and> truthy_str total_h
         then (let rateLimitInfo =
                     \<lparr>remaining = parseInt (the remaining_h),
                      reset = js_times (parseInt (the reset_h)) (Some 1000),
                      total_limit = parseInt (the total_h)\<rparr>
               in if writable st then Inr (st\<lparr>rate_limit := Some rateLimitInfo\<rparr>)
                  else Inl (StorageError ''QuotaExceededError''))
         else Inr st)"

definition getRateLimit :: "'a storage \<Rightarrow> RateLimitInfo option" where
  "getRateLimit st = rate_limit st"

section \<open>The network exchange and the cached fetch\<close>

text \<open>
  A completed exchange yields a response: its status, status text, headers, and a body that
  either parses as JSON (\<^const>\<open>Inr\<close>, the parsed value) or makes
  \<^verbatim>\<open>response.json()\<close> throw with the given message (\<^const>\<open>Inl\<close>). \<^verbatim>\<open>fetch\<close>
  may also reject before any response arrives.
\<close>

record 'a response =
  status :: nat
  statusText :: string
  headers :: "string \<rightharpoonup> string"
  body :: "string + 'a"

datatype 'a exchange = Rejected string | Responded "'a response"

definition ok :: "'a response \<Rightarrow> bool" where
  "ok r = (200 \<le> status r \<and> status r \<le> 299)"

text \<open>
  \<^verbatim>\<open>fetchWithCache\<close>. \<open>net\<close> is the provider as seen with the current credential: the
  exchange each URL would produce. \<open>now\<close> is the clock when the cache is read and \<open>now'\<close>
  the clock when the decoded body is stored. The third component lists the URLs for which a
  network exchange was started.
\<close>

definition fetchWithCache ::
  "(string \<Rightarrow> 'a exchange) \<Rightarrow> int \<Rightarrow> int \<Rightarrow> string \<Rightarrow> 'a storage
     \<Rightarrow> (api_error + 'a) \<times> 'a storage \<times> string list" where
  "fetchWithCache net now now' url st =
     (let cacheKey = getCacheKey url;
          (cached, st1) = getCachedData now cacheKey st
      in case cached of
           Some d \<Rightarrow> (Inr d, st1, [])
         | None \<Rightarrow>
             (case net url of
                Rejected m \<Rightarrow> (Inl (NetworkError m), st1, [url])
              | Responded r \<Rightarrow>
                  (case updateRateLimit (headers r) st1 of
                     Inl e \<Rightarrow> (Inl e, st1, [url])
                   | Inr st2 \<Rightarrow>
                       if \<not> ok r
                       then (if status r = 403
                             then (Inl RateLimitExceeded, st2, [url])
                             else (Inl (RequestFailed (status r) (statusText r)), st2, [url]))
                       else (case body r of
                               Inl m \<Rightarrow> (Inl (DecodeFailure m), st2, [url])
                             | Inr d \<Rightarrow> (Inr d, setCachedData now' cacheKey d st2, [url])))))"

definition getUser ::
  "(string \<Rightarrow> GitHubUser exchange) \<Rightarrow> int \<Rightarrow> int \<Rightarrow> string \<Rightarrow> GitHubUser storage
     \<Rightarrow> (api_error + GitHubUser) \<times> GitHubUser storage \<times> string list" where
  "getUser net now now' username st =
     fetchWithCache net now now' (GITHUB_API_BASE @ ''/users/'' @ username) st"

section \<open>The search request\<close>

text \<open>
  The query term \<^verbatim>\<open>GitHubAPI.searchUsers\<close> builds from the filters, one conditional
  append after the other as in the source. The quotation mark is \<open>CHR 0x22\<close>.
\<close>

definition build_query :: "SearchFilters \<Rightarrow> string" where
  "build_query fs =
     (let q0 = query fs;
          q1 = (if truthy_str (language fs) then q0 @ '' language:'' @ the (language fs) else q0);
          q2 = (if truthy_str (location fs)
                then q1 @ '' location:'' @ [CHR 0x22] @ the (location fs) @ [CHR 0x22] else q1);
          q3 = (if truthy_num (minRepos fs)
                then q2 @ '' repos:>='' @ toString (the (minRepos fs)) else q2);
          q4 = (if truthy_num (minFollowers fs)
                then q3 @ '' followers:>='' @ toString (the (minFollowers fs)) else q3)
      in q4 @ '' type:user'')"

fun sort_field_name :: "sort_field \<Rightarrow> string" where
  "sort_field_name Followers = ''followers''"
| "sort_field_name Repositories = ''repositories''"
| "sort_field_name Joined = ''joined''"

fun sort_order_name :: "sort_order \<Rightarrow> string" where
  "sort_order_name Asc = ''asc''"
| "sort_order_name Desc = ''desc''"

definition search_url :: "SearchFilters \<Rightarrow> int \<Rightarrow> int \<Rightarrow> string" where
  "search_url fs page perPage =
     GITHUB_API_BASE @ ''/search/users?'' @
     params_toString
       [(''q'', build_query fs),
        (''sort'', sort_field_name (case sortBy fs of None \<Rightarrow> Followers | Some f \<Rightarrow> f)),
        (''order'', sort_order_name (case order fs of None \<Rightarrow> Desc | Some d \<Rightarrow> d)),
        (''page'', toString page),
        (''per_page'', toString perPage)]"

text \<open>\<^verbatim>\<open>GitHubAPI.searchUsers\<close> (the method of the client, not the callback of the view).\<close>

definition api_searchUsers ::
  "(string \<Rightarrow> search_body exchange) \<Rightarrow> int \<Rightarrow> int \<Rightarrow> SearchFilters \<Rightarrow> int \<Rightarrow> int
     \<Rightarrow> search_body storage \<Rightarrow> (api_error + search_result) \<times> search_body storage \<times> string list" where
  "api_searchUsers net now now' fs page perPage st =
     (case fetchWithCache net now now' (search_url fs page perPage) st of
        (Inl e, st', sent) \<Rightarrow> (Inl e, st', sent)
      | (Inr result, st', sent) \<Rightarrow>
          (Inr \<lparr>users = items result, total_count = body_total_count result,
                incomplete_results = body_incomplete_results result\<rparr>, st', sent))"

section \<open>Experience level\<close>

text \<open>
  \<^verbatim>\<open>calculateExperienceLevel\<close> at clock reading \<open>now\<close>. The account age is a whole
  number of milliseconds and the quotient is compared with \<open>2.5\<close> and \<open>5\<close>, both exact
  in binary floating point and further from every other quotient than the rounding error, so
  the comparisons of the source agree with the comparisons of the exact quotient.
\<close>

definition yearsActive :: "int \<Rightarrow> int \<Rightarrow> rat" where
  "yearsActive now createdAt = of_int (now - createdAt) / of_int (1000 * 60 * 60 * 24 * 365)"

definition calculateExperienceLevel :: "int \<Rightarrow> int \<Rightarrow> int \<Rightarrow> experience" where
  "calculateExperienceLevel now createdAt publicRepos =
     (if yearsActive now createdAt \<le> 5 / 2 \<or> publicRepos \<le> 15 then Junior
      else if yearsActive now createdAt \<ge> 5 \<or> publicRepos \<ge> 60 then Senior
      else Mid)"

section \<open>The main view: state and operations\<close>

text \<open>
  The state of the \<^verbatim>\<open>Index\<close> component: its \<^verbatim>\<open>useState\<close> cells, and the two values
  it reads from the authentication and favourites contexts. A cell that was set to
  \<^verbatim>\<open>undefined\<close> holds \<^const>\<open>None\<close>. \<open>renderFailed\<close> records that a queued state
  updater threw when React ran it, upon which React takes the view down. Toast notifications
  are display only and are not part of the state.
\<close>

record view_state =
  allUsers :: "GitHubUser list option"
  filteredUsers :: "GitHubUser list option"
  isLoading :: bool
  error :: "string option"
  totalResults :: "int option"
  rateLimit :: "RateLimitInfo option"
  currentPage :: int
  hasMoreResults :: bool
  showingFavorites :: bool
  searchQuery :: string
  lastSearchQuery :: string
  isOnHomePage :: bool
  filters :: SearchFilters
  authUser :: bool
  favorites :: "GitHubUser list"
  renderFailed :: bool

text \<open>
  \<^verbatim>\<open>Array.prototype.sort\<close> with a comparator is stable; for a comparator that is the
  difference of two integer keys it returns the one stable ordering, which insertion from the
  right computes.
\<close>

fun insert_by :: "('a \<Rightarrow> 'a \<Rightarrow> int) \<Rightarrow> 'a \<Rightarrow> 'a list \<Rightarrow> 'a list" where
  "insert_by cmp x [] = [x]"
| "insert_by cmp x (y # ys) = (if cmp x y \<le> 0 then x # y # ys else y # insert_by cmp x ys)"

definition js_sort :: "('a \<Rightarrow> 'a \<Rightarrow> int) \<Rightarrow> 'a list \<Rightarrow> 'a list" where
  "js_sort cmp xs = foldr (insert_by cmp) xs []"

definition sort_value :: "SearchFilters \<Rightarrow> GitHubUser \<Rightarrow> int" where
  "sort_value fs u =
     (case sortBy fs of
        Some Repositories \<Rightarrow> public_repos u
      | Some Joined \<Rightarrow> created_at u
      | _ \<Rightarrow> followers u)"

definition compare_users :: "SearchFilters \<Rightarrow> GitHubUser \<Rightarrow> GitHubUser \<Rightarrow> int" where
  "compare_users fs a b =
     (if order fs = Some Desc then sort_value fs b - sort_value fs a
      else sort_value fs a - sort_value fs b)"

definition language_matches :: "string \<Rightarrow> GitHubUser \<Rightarrow> bool" where
  "language_matches lang u =
     (let bio_l = (case bio u of None \<Rightarrow> [] | Some b \<Rightarrow> toLowerCase b);
          login_l = toLowerCase (login u);
          language_l = toLowerCase lang
      in includes_str bio_l language_l \<or> includes_str login_l language_l)"

definition location_matches :: "string \<Rightarrow> GitHubUser \<Rightarrow> bool" where
  "location_matches loc u =
     (case user_location u of
        None \<Rightarrow> False
      | Some l \<Rightarrow> includes_str (toLowerCase l) (toLowerCase loc))"

text \<open>
  The experience-level filter. \<^verbatim>\<open>calculateExperienceLevel\<close> reads the clock each time
  it is called, once for each record the filter examines: \<open>clock k\<close> is the reading at the
  call for the record at position \<open>k\<close>.
\<close>

fun filter_level :: "(nat \<Rightarrow> int) \<Rightarrow> nat \<Rightarrow> experience \<Rightarrow> GitHubUser list \<Rightarrow> GitHubUser list" where
  "filter_level clock k lvl [] = []"
| "filter_level clock k lvl (u # us) =
     (if calculateExperienceLevel (clock k) (created_at u) (public_repos u) = lvl
      then u # filter_level clock (Suc k) lvl us
      else filter_level clock (Suc k) lvl us)"

text \<open>The filter-and-sort pass of \<^verbatim>\<open>applyClientSideFilters\<close> over a list of users.\<close>

definition client_side_filter ::
  "(nat \<Rightarrow> int) \<Rightarrow> SearchFilters \<Rightarrow> GitHubUser list \<Rightarrow> GitHubUser list" where
  "client_side_filter clock fs us =
     (let f0 = us;
          f1 = (if truthy_str (language fs)
                then filter (language_matches (the (language fs))) f0 else f0);
          f2 = (if truthy_str (location fs)
                then filter (location_matches (the (location fs))) f1 else f1);
          f3 = (if truthy_num (minRepos fs)
                then filter (\<lambda>u. public_repos u \<ge> the (minRepos fs)) f2 else f2);
          f4 = (if truthy_num (minFollowers fs)
                then filter (\<lambda>u. followers u \<ge> the (minFollowers fs)) f3 else f3);
          f5 = (case experienceLevel fs of
                  None \<Rightarrow> f4
                | Some lvl \<Rightarrow> filter_level clock 0 lvl f4)
      in js_sort (compare_users fs) f5)"

text \<open>
  \<^verbatim>\<open>applyClientSideFilters\<close> on the state it closes over. Spreading a fetched list
  that is \<^verbatim>\<open>undefined\<close> throws before anything is set.
\<close>

definition applyClientSideFilters :: "(nat \<Rightarrow> int) \<Rightarrow> view_state \<Rightarrow> view_state" where
  "applyClientSideFilters clock s =
     (case allUsers s of
        None \<Rightarrow> s
      | Some us \<Rightarrow> s\<lparr>filteredUsers := Some (client_side_filter clock (filters s) us)\<rparr>)"

text \<open>
  The search term and the filter object \<^verbatim>\<open>performFilteredSearch\<close> builds from the
  filters of the view.
\<close>

definition filtered_search_term :: "SearchFilters \<Rightarrow> string" where
  "filtered_search_term fs =
     (if truthy_str (language fs) then toLowerCase (the (language fs)) else ''followers:>10'')"

definition filtered_search_filters :: "SearchFilters \<Rightarrow> SearchFilters" where
  "filtered_search_filters fs =
     \<lparr>query = filtered_search_term fs, language = language fs, location = location fs,
      minRepos = minRepos fs, minFollowers = minFollowers fs,
      sortBy = Some (case sortBy fs of None \<Rightarrow> Followers | Some f \<Rightarrow> f),
      order = Some (case order fs of None \<Rightarrow> Desc | Some d \<Rightarrow> d),
      experienceLevel = None\<rparr>"

text \<open>
  The message of the \<^verbatim>\<open>TypeError\<close> that reading \<^verbatim>\<open>length\<close> of
  \<^verbatim>\<open>undefined\<close> throws (the wording is the engine's; this is V8's).
\<close>

definition TypeError_length :: string where
  "TypeError_length =
     ''Cannot read properties of undefined (reading '' @ [CHR 0x27] @ ''length'' @ [CHR 0x27] @ '')''"

text \<open>
  \<^verbatim>\<open>performFilteredSearch\<close>. On a result the three setters run first; the test
  \<^verbatim>\<open>result.users.length === 0\<close> that follows throws into the \<^verbatim>\<open>catch\<close> when the
  body had no \<^verbatim>\<open>items\<close>.
\<close>

definition performFilteredSearch ::
  "(string \<Rightarrow> search_body exchange) \<Rightarrow> int \<Rightarrow> int \<Rightarrow> view_state \<times> search_body storage
     \<Rightarrow> view_state \<times> search_body storage \<times> string list" where
  "performFilteredSearch net now now' = (\<lambda>(s, st).
     if \<not> authUser s then (s, st, [])
     else
       (let s1 = s\<lparr>isLoading := True, error := None, isOnHomePage := False\<rparr>;
            sq = filtered_search_term (filters s);
            searchFilters = filtered_search_filters (filters s)
        in case api_searchUsers net now now' searchFilters 1 50 st of
             (Inr result, st', sent) \<Rightarrow>
               (let s2 = s1\<lparr>allUsers := users result, filteredUsers := users result,
                            totalResults := total_count result, lastSearchQuery := sq,
                            rateLimit := getRateLimit st'\<rparr>
                in case users result of
                     None \<Rightarrow> (s2\<lparr>error := Some TypeError_length, isLoading := False\<rparr>, st', sent)
                   | Some us \<Rightarrow> (s2\<lparr>isLoading := False\<rparr>, st', sent))
           | (Inl e, st', sent) \<Rightarrow>
               (s1\<lparr>error := Some (error_message e), isLoading := False\<rparr>, st', sent)))"

text \<open>
  The filter object the \<^verbatim>\<open>searchUsers\<close> callback of the view sends: the trimmed text and
  the sort settings only.
\<close>

definition text_search_filters :: "string \<Rightarrow> SearchFilters \<Rightarrow> SearchFilters" where
  "text_search_filters q fs =
     \<lparr>query = q, language = None, location = None, minRepos = None, minFollowers = None,
      sortBy = Some (case sortBy fs of None \<Rightarrow> Followers | Some f \<Rightarrow> f),
      order = Some (case order fs of None \<Rightarrow> Desc | Some d \<Rightarrow> d),
      experienceLevel = None\<rparr>"

text \<open>
  The two updaters \<^verbatim>\<open>prev => [...prev, ...result.users]\<close> that the callback queues when
  it appends. React runs them when it renders next; spreading \<^verbatim>\<open>undefined\<close> throws
  there, and the cell keeps its value.
\<close>

definition run_append_updaters :: "GitHubUser list option \<Rightarrow> view_state \<Rightarrow> view_state" where
  "run_append_updaters new_users s =
     (case (allUsers s, filteredUsers s, new_users) of
        (Some xs, Some ys, Some us) \<Rightarrow> s\<lparr>allUsers := Some (xs @ us), filteredUsers := Some (ys @ us)\<rparr>
      | _ \<Rightarrow> s\<lparr>renderFailed := True\<rparr>)"

text \<open>
  The \<^verbatim>\<open>searchUsers\<close> callback of the view, with its two arguments \<^verbatim>\<open>page\<close> and
  \<^verbatim>\<open>append\<close>. A blank search text returns at once, with a notification only. On a
  result the list setters and \<^verbatim>\<open>setTotalResults\<close> run first; the argument of
  \<^verbatim>\<open>setHasMoreResults\<close> reads \<^verbatim>\<open>result.users.length\<close> and throws into the
  \<^verbatim>\<open>catch\<close> when the body had no \<^verbatim>\<open>items\<close>. \<^verbatim>\<open>Math.min\<close> of a missing
  total is \<^verbatim>\<open>NaN\<close>, below which no offset lies.
\<close>

definition searchUsers ::
  "(string \<Rightarrow> search_body exchange) \<Rightarrow> int \<Rightarrow> int \<Rightarrow> int \<Rightarrow> bool
     \<Rightarrow> view_state \<times> search_body storage \<Rightarrow> view_state \<times> search_body storage \<times> string list" where
  "searchUsers net now now' page append_flag = (\<lambda>(s, st).
     if trim (searchQuery s) = [] then (s, st, [])
     else
       (let q = trim (searchQuery s);
            s1 = s\<lparr>isLoading := True, error := None, lastSearchQuery := q,
                   isOnHomePage := False\<rparr>;
            searchFilters = text_search_filters q (filters s)
        in case api_searchUsers net now now' searchFilters page 50 st of
             (Inr result, st', sent) \<Rightarrow>
               (let s2 = (if append_flag then run_append_updaters (users result) s1
                          else s1\<lparr>allUsers := users result, filteredUsers := users result,
                                  currentPage := 1\<rparr>);
                    s3 = s2\<lparr>totalResults := total_count result\<rparr>
                in case users result of
                     None \<Rightarrow> (s3\<lparr>error := Some TypeError_length, isLoading := False\<rparr>, st', sent)
                   | Some us \<Rightarrow>
                       (s3\<lparr>hasMoreResults := (int (length us) = 50
                              \<and> (case total_count result of
                                    None \<Rightarrow> False
                                  | Some n \<Rightarrow> page * 50 < min n 1000)),
                           rateLimit := getRateLimit st', isLoading := False\<rparr>, st', sent))
           | (Inl e, st', sent) \<Rightarrow>
               (s1\<lparr>error := Some (error_message e), isLoading := False\<rparr>, st', sent)))"

definition loadMoreResults ::
  "(string \<Rightarrow> search_body exchange) \<Rightarrow> int \<Rightarrow> int \<Rightarrow> view_state \<times> search_body storage
     \<Rightarrow> view_state \<times> search_body storage \<times> string list" where
  "loadMoreResults net now now' = (\<lambda>(s, st).
     if \<not> hasMoreResults s \<or> isLoading s then (s, st, [])
     else
       (let nextPage = currentPage s + 1
        in searchUsers net now now' nextPage True (s\<lparr>currentPage := nextPage\<rparr>, st)))"

text \<open>
  The test the callback of the debounce timer makes to choose between a remote search and the
  local pass.
\<close>

definition hasActiveFilters :: "SearchFilters \<Rightarrow> bool" where
  "hasActiveFilters fs =
     (truthy_str (language fs) \<or> truthy_str (location fs) \<or> truthy_num (minRepos fs)
      \<or> truthy_num (minFollowers fs) \<or> experienceLevel fs \<noteq> None)"

section \<open>The query builder as the specification words it\<close>

text \<open>
  \<open>QueryBuilder.build\<close> of the specification, written from its words and not from the source,
  for comparison with \<^const>\<open>build_query\<close>: the base term, then one clause for each optional
  field that is set (present in the filter object), then the fixed suffix.
\<close>

definition clause_language :: "string option \<Rightarrow> string" where
  "clause_language v = (case v of None \<Rightarrow> [] | Some l \<Rightarrow> '' language:'' @ l)"

definition clause_location :: "string option \<Rightarrow> string" where
  "clause_location v = (case v of None \<Rightarrow> [] | Some l \<Rightarrow> '' location:'' @ [CHR 0x22] @ l @ [CHR 0x22])"

definition clause_repos :: "int option \<Rightarrow> string" where
  "clause_repos v = (case v of None \<Rightarrow> [] | Some n \<Rightarrow> '' repos:>='' @ toString n)"

definition clause_followers :: "int option \<Rightarrow> string" where
  "clause_followers v = (case v of None \<Rightarrow> [] | Some n \<Rightarrow> '' followers:>='' @ toString n)"

definition QueryBuilder_build :: "SearchFilters \<Rightarrow> string" where
  "QueryBuilder_build fs =
     query fs @ clause_language (language fs) @ clause_location (location fs)
       @ clause_repos (minRepos fs) @ clause_followers (minFollowers fs) @ '' type:user''"

text \<open>
  What a field counts for in the source: a field holding the empty string or zero counts as
  not set.
\<close>

definition effective_str :: "string option \<Rightarrow> string option" where
  "effective_str v = (if truthy_str v then v else None)"

definition effective_num :: "int option \<Rightarrow> int option" where
  "effective_num v = (if truthy_num v then v else None)"

section \<open>Example values\<close>

text \<open>Concrete values on which the theorems below are instantiated.\<close>

definition torvalds :: GitHubUser where
  "torvalds = \<lparr>user_id = 1024025, login = ''torvalds'', user_location = Some ''Portland, OR'',
     bio = None, public_repos = 7, followers = 200000, created_at = 1315000000000\<rparr>"

definition octocat :: GitHubUser where
  "octocat = \<lparr>user_id = 583231, login = ''octocat'', user_location = Some ''San Francisco'',
     bio = Some ''Python and Go'', public_repos = 8, followers = 9000, created_at = 1295000000000\<rparr>"

definition empty_storage :: "'a storage" where
  "empty_storage = \<lparr>cache = Map.empty, rate_limit = None, writable = True\<rparr>"

definition rate_headers :: "string \<rightharpoonup> string" where
  "rate_headers = [''x-ratelimit-remaining'' \<mapsto> ''4999'', ''x-ratelimit-reset'' \<mapsto> ''1700000000'',
     ''x-ratelimit-limit'' \<mapsto> ''5000'']"

definition offline :: "string \<Rightarrow> 'a exchange" where
  "offline url = Rejected ''Failed to fetch''"

definition answers :: "nat \<Rightarrow> string \<Rightarrow> (string \<rightharpoonup> string) \<Rightarrow> string + 'a \<Rightarrow> string \<Rightarrow> 'a exchange" where
  "answers code txt hdrs b url = Responded \<lparr>status = code, statusText = txt, headers = hdrs, body = b\<rparr>"

definition python_filters :: SearchFilters where
  "python_filters = \<lparr>query = ''python'', language = Some ''Python'', location = None,
     minRepos = None, minFollowers = None, sortBy = None, order = None,
     experienceLevel = None\<rparr>"

definition zero_repos_filters :: SearchFilters where
  "zero_repos_filters = \<lparr>query = ''react'', language = None, location = None,
     minRepos = Some 0, minFollowers = None, sortBy = Some Followers, order = Some Desc,
     experienceLevel = None\<rparr>"

definition default_filters :: SearchFilters where
  "default_filters = \<lparr>query = [], language = None, location = None, minRepos = None,
     minFollowers = None, sortBy = Some Followers, order = Some Desc, experienceLevel = None\<rparr>"

text \<open>
  The view after a text search for \<^verbatim>\<open>linux\<close> showed a full first page of 50 records
  out of 500.
\<close>

definition first_page_state :: view_state where
  "first_page_state = \<lparr>allUsers = Some (replicate 50 torvalds),
     filteredUsers = Some (replicate 50 torvalds),
     isLoading = False, error = None, totalResults = Some 500, rateLimit = None,
     currentPage = 1, hasMoreResults = True, showingFavorites = False,
     searchQuery = ''linux'', lastSearchQuery = ''linux'', isOnHomePage = False,
     filters = default_filters, authUser = True, favorites = [], renderFailed = False\<rparr>"

definition second_page :: search_body where
  "second_page = \<lparr>items = Some (replicate 50 octocat), body_total_count = Some 500,
     body_incomplete_results = Some False\<rparr>"

text \<open>The body \<^verbatim>\<open>{}\<close>: valid JSON with none of the three properties.\<close>

definition empty_object :: search_body where
  "empty_object = \<lparr>items = None, body_total_count = None, body_incomplete_results = None\<rparr>"

text \<open>
  An account created at instant 0 with 20 repositories: junior by age up to the clock reading
  78,840,000,000 and mid after it.
\<close>

definition newcomer :: GitHubUser where
  "newcomer = \<lparr>user_id = 7, login = ''newcomer'', user_location = None, bio = None,
     public_repos = 20, followers = 3, created_at = 0\<rparr>"

section \<open>Decimal rendering and \<^verbatim>\<open>parseInt\<close>\<close>

text \<open>
  \<^verbatim>\<open>parseInt\<close> reads the decimal rendering of an integer back as the Number value of
  that integer, which is the integer itself below \<open>2\<^sup>5\<^sup>3\<close> in magnitude.
\<close>

lemma js_number_exact: "\<bar>i\<bar> < 9007199254740992 \<Longrightarrow> js_number i = Some i"
  by (simp add: js_number_def)

lemma drop_bits_small: "m < 9007199254740992 \<Longrightarrow> drop_bits m = 0"
  by (simp add: drop_bits.simps [of m])

lemma drop_bits_large: "\<not> m < 9007199254740992 \<Longrightarrow> drop_bits m = Suc (drop_bits (m div 2))"
  by (subst drop_bits.simps) simp

text \<open>
  Beyond that the value is rounded: \<open>2\<^sup>5\<^sup>3 + 1\<close> is read as \<open>2\<^sup>5\<^sup>3\<close>, and
  \<open>2\<^sup>5\<^sup>3 + 3\<close> as \<open>2\<^sup>5\<^sup>3 + 4\<close>.
\<close>

lemma js_number_rounds:
  "js_number 9007199254740993 = Some 9007199254740992"
  "js_number 9007199254740995 = Some 9007199254740996"
  by (simp_all add: js_number_def drop_bits_small drop_bits_large Let_def)


lemma of_char_digit_char: "d < 10 \<Longrightarrow> (of_char (digit_char d) :: nat) = 48 + d"
  by (simp add: digit_char_def)

lemma is_digit_digit_char: "d < 10 \<Longrightarrow> is_digit (digit_char d)"
  by (simp add: is_digit_def of_char_digit_char)

lemma digit_val_digit_char: "d < 10 \<Longrightarrow> digit_val (digit_char d) = int d"
  by (simp add: digit_val_def of_char_digit_char)

lemma show_nat_all_digits: "\<forall>c \<in> set (show_nat n). is_digit c"
proof (induction n rule: show_nat.induct)
  case (1 n)
  show ?case
  proof (cases "n < 10")
    case True
    then show ?thesis
      by (simp add: show_nat.simps [of n] is_digit_digit_char)
  next
    case False
    then show ?thesis
      using "1.IH" [OF False] by (simp add: show_nat.simps [of n] is_digit_digit_char)
  qed
qed

lemma show_nat_digits: "c \<in> set (show_nat n) \<Longrightarrow> is_digit c"
  using show_nat_all_digits by blast

lemma show_nat_nonempty: "show_nat n \<noteq> []"
  by (simp add: show_nat.simps [of n])

lemma digits_value_snoc:
  "digits_value radix val (ds @ [c]) = radix * digits_value radix val ds + val c"
  by (simp add: digits_value_def)

lemma digits_value_show_nat: "digits_value 10 digit_val (show_nat n) = int n"
proof (induction n rule: show_nat.induct)
  case (1 n)
  show ?case
  proof (cases "n < 10")
    case True
    then show ?thesis
      by (simp add: show_nat.simps [of n] digits_value_def digit_val_digit_char)
  next
    case False
    have "digits_value 10 digit_val (show_nat n)
            = 10 * digits_value 10 digit_val (show_nat (n div 10)) + int (n mod 10)"
      using False by (simp add: show_nat.simps [of n] digits_value_snoc digit_val_digit_char)
    also have "\<dots> = 10 * int (n div 10) + int (n mod 10)"
      using "1.IH" [OF False] by simp
    also have "\<dots> = int n"
      by (simp add: zdiv_int zmod_int)
    finally show ?thesis .
  qed
qed

lemma not_digit_misc:
  "\<not> is_digit CHR ''x''" "\<not> is_digit CHR ''X''" "\<not> is_digit CHR ''-''" "\<not> is_digit CHR ''+''"
  by (simp_all add: is_digit_def)

lemma digit_not_space: "is_digit c \<Longrightarrow> \<not> is_space c"
  by (auto simp: is_digit_def is_space_def)

lemma all_digits_no_hex_prefix:
  assumes "\<forall>c \<in> set s. is_digit c"
  shows "take 2 s \<noteq> ''0x'' \<and> take 2 s \<noteq> ''0X''"
proof (cases s)
  case Nil
  then show ?thesis by simp
next
  case (Cons a r)
  show ?thesis
  proof (cases r)
    case Nil
    with Cons show ?thesis by simp
  next
    case (Cons b r')
    with \<open>s = a # r\<close> assms have "is_digit b" by simp
    then have "b \<noteq> CHR ''x''" "b \<noteq> CHR ''X''"
      using not_digit_misc by auto
    with Cons \<open>s = a # r\<close> show ?thesis by simp
  qed
qed

lemma parse_digits_show_nat: "parse_digits (show_nat n) = Some (int n)"
proof -
  have all: "\<forall>c \<in> set (show_nat n). is_digit c"
    using show_nat_digits by blast
  then have tw: "takeWhile is_digit (show_nat n) = show_nat n"
    by simp
  show ?thesis
    using all_digits_no_hex_prefix [OF all]
    by (simp add: parse_digits_def tw show_nat_nonempty digits_value_show_nat)
qed

lemma show_nat_head:
  obtains c r where "show_nat n = c # r" "is_digit c"
proof -
  obtain c r where eq: "show_nat n = c # r"
    using show_nat_nonempty [of n] by (cases "show_nat n") auto
  then have "c \<in> set (show_nat n)" by simp
  then have "is_digit c" by (rule show_nat_digits)
  with eq show ?thesis using that by blast
qed

lemma parseInt_show_nat: "parseInt (show_nat n) = js_number (int n)"
proof -
  obtain c r where eq: "show_nat n = c # r" and d: "is_digit c"
    by (rule show_nat_head)
  from d have "\<not> is_space c" "c \<noteq> CHR ''-''" "c \<noteq> CHR ''+''"
    using digit_not_space not_digit_misc by auto
  then have "parseInt (c # r)
               = (case parse_digits (c # r) of None \<Rightarrow> None | Some m \<Rightarrow> js_number m)"
    by (simp add: parseInt_def)
  then show ?thesis
    using parse_digits_show_nat [of n] by (simp add: eq)
qed

lemma parseInt_toString_number: "parseInt (toString i) = js_number i"
proof (cases "i < 0")
  case True
  have "\<not> is_space CHR ''-''" by (simp add: is_space_def)
  then have "parseInt (CHR ''-'' # show_nat (nat (- i)))
               = (case map_option uminus (parse_digits (show_nat (nat (- i)))) of
                    None \<Rightarrow> None | Some m \<Rightarrow> js_number m)"
    by (simp add: parseInt_def)
  then show ?thesis
    using True by (simp add: toString_def parse_digits_show_nat)
next
  case False
  then show ?thesis
    by (simp add: toString_def parseInt_show_nat)
qed

lemma parseInt_toString: "\<bar>i\<bar> < 9007199254740992 \<Longrightarrow> parseInt (toString i) = Some i"
  by (simp add: parseInt_toString_number js_number_exact)

text \<open>Rules that evaluate the two functions on literals.\<close>

lemma show_nat_small: "n < 10 \<Longrightarrow> show_nat n = [digit_char n]"
  by (simp add: show_nat.simps [of n])

lemma show_nat_large: "\<not> n < 10 \<Longrightarrow> show_nat n = show_nat (n div 10) @ [digit_char (n mod 10)]"
  by (subst show_nat.simps) simp

lemma digit_char_values:
  "digit_char 0 = CHR ''0''" "digit_char (Suc 0) = CHR ''1''" "digit_char 2 = CHR ''2''"
  "digit_char 3 = CHR ''3''" "digit_char 4 = CHR ''4''" "digit_char 5 = CHR ''5''"
  "digit_char 6 = CHR ''6''" "digit_char 7 = CHR ''7''" "digit_char 8 = CHR ''8''"
  "digit_char 9 = CHR ''9''"
  by (code_simp)+

lemmas eval_toString = toString_def show_nat_small show_nat_large digit_char_values

lemmas eval_parseInt = parseInt_def parse_digits_def is_space_def is_digit_def digits_value_def
  digit_val_def is_hex_digit_def hex_val_def js_number_exact

lemma toString_nonempty: "toString n \<noteq> []"
  by (simp add: toString_def show_nat_nonempty)

lemma truthy_str_iff: "truthy_str v \<longleftrightarrow> (\<exists>s. v = Some s \<and> s \<noteq> [])"
  by (cases v) (simp_all add: truthy_str_def)

lemma truthy_num_iff: "truthy_num v \<longleftrightarrow> (\<exists>n. v = Some n \<and> n \<noteq> 0)"
  by (cases v) (simp_all add: truthy_num_def)

section \<open>Experience level: order of the clauses\<close>

text \<open>The two age thresholds, in milliseconds of account age.\<close>

lemma yearsActive_junior_ms: "yearsActive now c \<le> 5 / 2 \<longleftrightarrow> now - c \<le> 78840000000"
proof -
  have "yearsActive now c \<le> 5 / 2 \<longleftrightarrow> (of_int (now - c) :: rat) \<le> of_int 78840000000"
    unfolding yearsActive_def by (simp add: field_simps) linarith
  also have "\<dots> \<longleftrightarrow> now - c \<le> 78840000000"
    by (simp only: of_int_le_iff)
  finally show ?thesis .
qed

lemma yearsActive_senior_ms: "yearsActive now c \<ge> 5 \<longleftrightarrow> now - c \<ge> 157680000000"
proof -
  have "yearsActive now c \<ge> 5 \<longleftrightarrow> (of_int (now - c) :: rat) \<ge> of_int 157680000000"
    unfolding yearsActive_def by (simp add: field_simps)
  also have "\<dots> \<longleftrightarrow> now - c \<ge> 157680000000"
    by (simp only: of_int_le_iff)
  finally show ?thesis .
qed

text \<open>
  Claim C1. For every account (created at \<open>c\<close>, with \<open>r\<close> public repositories) and clock
  reading \<open>now\<close>, with the age \<open>now - c\<close> in milliseconds and a year of 365 days
  (2.5 years are 78,840,000,000 ms and 5 years are 157,680,000,000 ms): the level is junior
  exactly when the age is at most 2.5 years or the count is at most 15; senior exactly when it
  is not junior and the age is at least 5 years or the count is at least 60; mid exactly when
  neither holds. In particular an account whose age qualifies junior and whose count of at
  least 60 would alone qualify senior is junior.
\<close>

theorem experience_level_order:
  "(calculateExperienceLevel now c r = Junior \<longleftrightarrow> (now - c \<le> 78840000000 \<or> r \<le> 15))
   \<and> (calculateExperienceLevel now c r = Senior \<longleftrightarrow>
        (\<not> (now - c \<le> 78840000000 \<or> r \<le> 15) \<and> (now - c \<ge> 157680000000 \<or> r \<ge> 60)))
   \<and> (calculateExperienceLevel now c r = Mid \<longleftrightarrow>
        (\<not> (now - c \<le> 78840000000 \<or> r \<le> 15) \<and> \<not> (now - c \<ge> 157680000000 \<or> r \<ge> 60)))
   \<and> (now - c \<le> 78840000000 \<and> r \<ge> 60 \<longrightarrow> calculateExperienceLevel now c r = Junior)"
  unfolding calculateExperienceLevel_def yearsActive_junior_ms yearsActive_senior_ms
  by auto

text \<open>
  An account aged exactly 2.5 years with 100 repositories is junior, and senior one
  millisecond later; an account aged exactly 5 years is senior with 60 repositories and with 16;
  an account between the two ages with 30 repositories is mid; a new account with 15
  repositories is junior.
\<close>

theorem experience_level_order_witness:
  "calculateExperienceLevel 78840000000 0 100 = Junior
   \<and> calculateExperienceLevel 78840000001 0 100 = Senior
   \<and> calculateExperienceLevel 157680000000 0 60 = Senior
   \<and> calculateExperienceLevel 157680000000 0 16 = Senior
   \<and> calculateExperienceLevel 100000000000 0 30 = Mid
   \<and> calculateExperienceLevel 157679999999 0 59 = Mid
   \<and> calculateExperienceLevel 1000 0 15 = Junior"
  using experience_level_order [of 78840000000 0 100]
    experience_level_order [of 78840000001 0 100]
    experience_level_order [of 157680000000 0 60]
    experience_level_order [of 157680000000 0 16]
    experience_level_order [of 100000000000 0 30]
    experience_level_order [of 157679999999 0 59]
    experience_level_order [of 1000 0 15]
  by simp

section \<open>The cache: expiry on read\<close>

text \<open>
  Claim C4. For every cache entry (payload \<open>d\<close> stored at \<open>t\<close>), a read at clock reading
  \<open>now\<close> returns nothing and removes the entry when \<open>now - t\<close> exceeds 300,000 ms, and
  returns the payload, leaving the medium as it is, otherwise. One millisecond past the limit
  the entry is gone; at exactly 300,000 ms it is still returned.
\<close>

theorem cache_read_expiry:
  assumes "cache st k = Some (Entry d t)"
  shows "getCachedData now k st =
           (if now - t > 300000 then (None, st\<lparr>cache := (cache st)(k := None)\<rparr>) else (Some d, st))
         \<and> cache (snd (getCachedData (t + 300001) k st)) k = None
         \<and> getCachedData (t + 300000) k st = (Some d, st)"
  using assms by (simp add: getCachedData_def CACHE_DURATION_def)

theorem cache_read_expiry_witness:
  "getCachedData 301001 ''k'' (empty_storage\<lparr>cache := [''k'' \<mapsto> Entry torvalds 1000]\<rparr>)
     = (None, empty_storage)
   \<and> getCachedData 301000 ''k'' (empty_storage\<lparr>cache := [''k'' \<mapsto> Entry torvalds 1000]\<rparr>)
     = (Some torvalds, empty_storage\<lparr>cache := [''k'' \<mapsto> Entry torvalds 1000]\<rparr>)"
  using cache_read_expiry [where st = "empty_storage\<lparr>cache := [''k'' \<mapsto> Entry torvalds 1000]\<rparr>"
          and k = "''k''" and d = torvalds and t = 1000 and now = 301001]
        cache_read_expiry [where st = "empty_storage\<lparr>cache := [''k'' \<mapsto> Entry torvalds 1000]\<rparr>"
          and k = "''k''" and d = torvalds and t = 1000 and now = 301000]
  by (simp add: empty_storage_def)

section \<open>The cached fetch: a hit touches nothing\<close>

lemma fetch_hit:
  assumes "cache st (getCacheKey url) = Some (Entry d t)" and "now - t \<le> CACHE_DURATION"
  shows "fetchWithCache net now now' url st = (Inr d, st, [])"
  using assms by (simp add: fetchWithCache_def getCachedData_def)

lemma updateRateLimit_cache:
  "updateRateLimit h st = Inr st' \<Longrightarrow> cache st' = cache st \<and> writable st' = writable st"
  by (auto simp: updateRateLimit_def Let_def split: if_splits)

lemma getCachedData_writable: "writable (snd (getCachedData now k st)) = writable st"
  by (simp add: getCachedData_def split: option.splits cache_slot.splits)

lemma fetch_miss_success_cached:
  assumes "fetchWithCache net now now' url st = (Inr d, st', sent)" and "sent \<noteq> []" and "writable st"
  shows "cache st' (getCacheKey url) = Some (Entry d now')"
proof -
  obtain c st1 where g: "getCachedData now (getCacheKey url) st = (c, st1)"
    by (cases "getCachedData now (getCacheKey url) st")
  have w1: "writable st1"
    using getCachedData_writable [of now "getCacheKey url" st] g assms(3) by simp
  from assms(1,2) g have c: "c = None"
    by (cases c) (auto simp: fetchWithCache_def)
  from assms(1) g c obtain r where r: "net url = Responded r"
    by (cases "net url") (auto simp: fetchWithCache_def)
  from assms(1) g c r obtain st2 where u: "updateRateLimit (headers r) st1 = Inr st2"
    by (cases "updateRateLimit (headers r) st1") (auto simp: fetchWithCache_def)
  from assms(1) g c r u have "body r = Inr d \<and> st' = setCachedData now' (getCacheKey url) d st2"
    by (cases "body r") (auto simp: fetchWithCache_def split: if_splits)
  moreover have "writable st2"
    using updateRateLimit_cache [OF u] w1 by simp
  ultimately show ?thesis
    by (simp add: setCachedData_def)
qed

text \<open>
  Claim C5. For every request whose key is present and fresh in the cache, the call returns the
  cached payload, starts no network exchange and leaves the medium, the stored rate-limit state
  included, as it was. In particular, when a \<^verbatim>\<open>getUser\<close> call went to the network,
  succeeded and was stored, the same call issued no later than the TTL after that store
  returns the same user with no exchange and an unchanged rate-limit state.
\<close>

theorem cache_hit_frame:
  "(cache st (getCacheKey url) = Some (Entry d t) \<and> now - t \<le> CACHE_DURATION
      \<longrightarrow> fetchWithCache net now now' url st = (Inr d, st, []))
   \<and> (getUser net1 now1 now1' name st0 = (Inr u, st1, sent) \<and> sent \<noteq> [] \<and> writable st0
        \<and> now2 - now1' \<le> CACHE_DURATION
      \<longrightarrow> getUser net2 now2 now2' name st1 = (Inr u, st1, [])
          \<and> getRateLimit (fst (snd (getUser net2 now2 now2' name st1))) = getRateLimit st1)"
proof (intro conjI impI)
  assume "cache st (getCacheKey url) = Some (Entry d t) \<and> now - t \<le> CACHE_DURATION"
  then show "fetchWithCache net now now' url st = (Inr d, st, [])"
    by (simp add: fetch_hit)
next
  assume a: "getUser net1 now1 now1' name st0 = (Inr u, st1, sent) \<and> sent \<noteq> [] \<and> writable st0
        \<and> now2 - now1' \<le> CACHE_DURATION"
  then have "cache st1 (getCacheKey (GITHUB_API_BASE @ ''/users/'' @ name)) = Some (Entry u now1')"
    using fetch_miss_success_cached [of net1 now1 now1' "GITHUB_API_BASE @ ''/users/'' @ name" st0 u st1 sent]
    by (simp add: getUser_def)
  with a show g: "getUser net2 now2 now2' name st1 = (Inr u, st1, [])"
    unfolding getUser_def by (intro fetch_hit) auto
  then show "getRateLimit (fst (snd (getUser net2 now2 now2' name st1))) = getRateLimit st1"
    by simp
qed

text \<open>
  A hit on an entry one minute old while the network is down, and scenario C: the second call
  for \<^verbatim>\<open>torvalds\<close> exactly the TTL after the first one was stored.
\<close>

theorem cache_hit_frame_witness:
  "fetchWithCache offline 60000 60000 (GITHUB_API_BASE @ ''/users/torvalds'')
       (empty_storage\<lparr>cache := [getCacheKey (GITHUB_API_BASE @ ''/users/torvalds'') \<mapsto> Entry torvalds 0]\<rparr>)
     = (Inr torvalds,
        empty_storage\<lparr>cache := [getCacheKey (GITHUB_API_BASE @ ''/users/torvalds'') \<mapsto> Entry torvalds 0]\<rparr>,
        [])
   \<and> getUser (answers 200 ''OK'' rate_headers (Inr torvalds)) 0 5 ''torvalds'' empty_storage
     = (Inr torvalds,
        \<lparr>cache = [getCacheKey (GITHUB_API_BASE @ ''/users/torvalds'') \<mapsto> Entry torvalds 5],
         rate_limit = Some \<lparr>remaining = Some 4999, reset = Some 1700000000000, total_limit = Some 5000\<rparr>,
         writable = True\<rparr>,
        [GITHUB_API_BASE @ ''/users/torvalds''])
   \<and> getUser offline 300005 300005 ''torvalds''
        \<lparr>cache = [getCacheKey (GITHUB_API_BASE @ ''/users/torvalds'') \<mapsto> Entry torvalds 5],
         rate_limit = Some \<lparr>remaining = Some 4999, reset = Some 1700000000000, total_limit = Some 5000\<rparr>,
         writable = True\<rparr>
     = (Inr torvalds,
        \<lparr>cache = [getCacheKey (GITHUB_API_BASE @ ''/users/torvalds'') \<mapsto> Entry torvalds 5],
         rate_limit = Some \<lparr>remaining = Some 4999, reset = Some 1700000000000, total_limit = Some 5000\<rparr>,
         writable = True\<rparr>,
        [])"
proof -
  let ?url = "GITHUB_API_BASE @ ''/users/torvalds''"
  let ?st = "empty_storage\<lparr>cache := [getCacheKey ?url \<mapsto> Entry torvalds 0]\<rparr>"
  let ?st1 = "\<lparr>cache = [getCacheKey ?url \<mapsto> Entry torvalds 5],
         rate_limit = Some \<lparr>remaining = Some 4999, reset = Some 1700000000000, total_limit = Some 5000\<rparr>,
         writable = True\<rparr>"
  have A: "fetchWithCache offline 60000 60000 ?url ?st = (Inr torvalds, ?st, [])"
    using cache_hit_frame [where st = ?st and url = ?url and d = torvalds and t = 0
        and now = 60000 and now' = 60000 and net = offline, THEN conjunct1]
    by (simp add: CACHE_DURATION_def)
  have p: "parseInt ''4999'' = Some 4999" "parseInt ''1700000000'' = Some 1700000000"
    "parseInt ''5000'' = Some 5000"
    by (simp_all add: eval_parseInt)
  have B: "getUser (answers 200 ''OK'' rate_headers (Inr torvalds)) 0 5 ''torvalds'' empty_storage
             = (Inr torvalds, ?st1, [?url])"
    by (simp add: getUser_def fetchWithCache_def getCachedData_def empty_storage_def
        answers_def updateRateLimit_def rate_headers_def truthy_str_def ok_def setCachedData_def p
        js_times_def js_number_exact)
  have C: "getUser offline 300005 300005 ''torvalds'' ?st1 = (Inr torvalds, ?st1, [])"
    using cache_hit_frame [where ?net1.0 = "answers 200 ''OK'' rate_headers (Inr torvalds)"
        and ?now1.0 = 0 and now1' = 5 and name = "''torvalds''"
        and ?st0.0 = "empty_storage :: GitHubUser storage" and u = torvalds and ?st1.0 = ?st1
        and sent = "[?url]" and ?now2.0 = 300005 and now2' = 300005 and ?net2.0 = offline,
        THEN conjunct2] B
    by (simp add: CACHE_DURATION_def empty_storage_def)
  show ?thesis
    using A B C by simp
qed

section \<open>The rate-limit tracker\<close>

text \<open>
  Claim C6. The stored rate-limit state is overwritten only when all three headers are present:
  when any of them is missing the medium is returned untouched, and a changed medium comes
  from three present headers and differs in the rate-limit state alone, whose reset value is
  the Number read from the reset header times 1000. A refused write stores nothing and arises
  only with all three headers present. With three non-empty headers and a medium that accepts
  the write, a reset header carrying the decimal text of \<open>n\<close> epoch seconds, \<open>n * 1000\<close>
  below \<open>2\<^sup>5\<^sup>3\<close> in magnitude, is stored as \<open>n * 1000\<close> ms.
\<close>

theorem rate_limit_update_frame:
  "(hdrs ''x-ratelimit-remaining'' = None \<or> hdrs ''x-ratelimit-reset'' = None
      \<or> hdrs ''x-ratelimit-limit'' = None
      \<longrightarrow> updateRateLimit hdrs st = Inr st)
   \<and> (updateRateLimit hdrs st = Inr st' \<and> st' \<noteq> st
      \<longrightarrow> (\<exists>r s t. hdrs ''x-ratelimit-remaining'' = Some r \<and> hdrs ''x-ratelimit-reset'' = Some s
              \<and> hdrs ''x-ratelimit-limit'' = Some t
              \<and> st' = st\<lparr>rate_limit := Some \<lparr>remaining = parseInt r,
                     reset = js_times (parseInt s) (Some 1000), total_limit = parseInt t\<rparr>\<rparr>))
   \<and> (updateRateLimit hdrs st = Inl e
      \<longrightarrow> \<not> writable st \<and> hdrs ''x-ratelimit-remaining'' \<noteq> None
          \<and> hdrs ''x-ratelimit-reset'' \<noteq> None \<and> hdrs ''x-ratelimit-limit'' \<noteq> None)
   \<and> (hdrs ''x-ratelimit-remaining'' = Some r \<and> r \<noteq> []
        \<and> hdrs ''x-ratelimit-reset'' = Some (toString n) \<and> \<bar>n\<bar> * 1000 < 9007199254740992
        \<and> hdrs ''x-ratelimit-limit'' = Some t \<and> t \<noteq> [] \<and> writable st
      \<longrightarrow> updateRateLimit hdrs st
            = Inr (st\<lparr>rate_limit := Some \<lparr>remaining = parseInt r, reset = Some (n * 1000),
                     total_limit = parseInt t\<rparr>\<rparr>))"
proof (intro conjI impI)
  assume "hdrs ''x-ratelimit-remaining'' = None \<or> hdrs ''x-ratelimit-reset'' = None
      \<or> hdrs ''x-ratelimit-limit'' = None"
  then show "updateRateLimit hdrs st = Inr st"
    by (auto simp: updateRateLimit_def truthy_str_iff)
next
  assume "updateRateLimit hdrs st = Inr st' \<and> st' \<noteq> st"
  then show "\<exists>r s t. hdrs ''x-ratelimit-remaining'' = Some r \<and> hdrs ''x-ratelimit-reset'' = Some s
              \<and> hdrs ''x-ratelimit-limit'' = Some t
              \<and> st' = st\<lparr>rate_limit := Some \<lparr>remaining = parseInt r,
                     reset = js_times (parseInt s) (Some 1000), total_limit = parseInt t\<rparr>\<rparr>"
    by (auto simp: updateRateLimit_def truthy_str_iff Let_def split: if_splits)
next
  assume e: "updateRateLimit hdrs st = Inl e"
  then show "\<not> writable st"
    by (auto simp: updateRateLimit_def Let_def split: if_splits)
  from e have tr: "truthy_str (hdrs ''x-ratelimit-remaining'') \<and> truthy_str (hdrs ''x-ratelimit-reset'')
      \<and> truthy_str (hdrs ''x-ratelimit-limit'')"
    by (auto simp: updateRateLimit_def Let_def split: if_splits)
  from tr show "hdrs ''x-ratelimit-remaining'' \<noteq> None"
    by (auto simp: truthy_str_iff)
  from tr show "hdrs ''x-ratelimit-reset'' \<noteq> None"
    by (auto simp: truthy_str_iff)
  from tr show "hdrs ''x-ratelimit-limit'' \<noteq> None"
    by (auto simp: truthy_str_iff)
next
  assume a: "hdrs ''x-ratelimit-remaining'' = Some r \<and> r \<noteq> []
        \<and> hdrs ''x-ratelimit-reset'' = Some (toString n) \<and> \<bar>n\<bar> * 1000 < 9007199254740992
        \<and> hdrs ''x-ratelimit-limit'' = Some t \<and> t \<noteq> [] \<and> writable st"
  then have small: "\<bar>n\<bar> < 9007199254740992" and prod: "\<bar>n * 1000\<bar> < 9007199254740992"
    by (simp_all add: abs_mult)
  have "js_times (parseInt (toString n)) (Some 1000) = Some (n * 1000)"
    by (simp add: parseInt_toString [OF small] js_times_def js_number_exact [OF prod])
  with a show "updateRateLimit hdrs st
            = Inr (st\<lparr>rate_limit := Some \<lparr>remaining = parseInt r, reset = Some (n * 1000),
                     total_limit = parseInt t\<rparr>\<rparr>)"
    by (simp add: updateRateLimit_def truthy_str_iff toString_nonempty)
qed

text \<open>
  Two headers out of three, all three, and all three on a medium that refuses writes.
\<close>

theorem rate_limit_update_frame_witness:
  "updateRateLimit (rate_headers(''x-ratelimit-reset'' := None))
       (empty_storage :: GitHubUser storage)
     = Inr empty_storage
   \<and> updateRateLimit rate_headers (empty_storage :: GitHubUser storage)
     = Inr (empty_storage\<lparr>rate_limit :=
          Some \<lparr>remaining = Some 4999, reset = Some 1700000000000, total_limit = Some 5000\<rparr>\<rparr>)
   \<and> updateRateLimit rate_headers (empty_storage\<lparr>writable := False\<rparr> :: GitHubUser storage)
     = Inl (StorageError ''QuotaExceededError'')"
proof -
  let ?st = "empty_storage :: GitHubUser storage"
  let ?h1 = "rate_headers(''x-ratelimit-reset'' := None)"
  have ts: "toString 1700000000 = ''1700000000''"
    by (simp add: eval_toString)
  have p1: "parseInt ''4999'' = Some 4999" and p2: "parseInt ''5000'' = Some 5000"
    by (simp_all add: eval_parseInt)
  have missing: "?h1 ''x-ratelimit-reset'' = None"
    by simp
  have present: "rate_headers ''x-ratelimit-remaining'' = Some ''4999''"
    "rate_headers ''x-ratelimit-reset'' = Some (toString 1700000000)"
    "rate_headers ''x-ratelimit-limit'' = Some ''5000''"
    by (simp_all add: ts rate_headers_def)
  have w: "writable ?st"
    by (simp add: empty_storage_def)
  have A: "updateRateLimit ?h1 ?st = Inr ?st"
    using rate_limit_update_frame [where hdrs = ?h1 and st = ?st, THEN conjunct1] missing
    by blast
  have B: "updateRateLimit rate_headers ?st
             = Inr (?st\<lparr>rate_limit := Some \<lparr>remaining = parseInt ''4999'',
                      reset = Some (1700000000 * 1000), total_limit = parseInt ''5000''\<rparr>\<rparr>)"
    using rate_limit_update_frame [where hdrs = rate_headers and st = ?st and r = "''4999''"
        and n = 1700000000 and t = "''5000''", THEN conjunct2, THEN conjunct2, THEN conjunct2]
      present w
    by simp
  have C: "updateRateLimit rate_headers (?st\<lparr>writable := False\<rparr>)
             = Inl (StorageError ''QuotaExceededError'')"
    using present by (simp add: updateRateLimit_def truthy_str_def ts)
  have D: "\<not> writable (?st\<lparr>writable := False\<rparr>)"
    using rate_limit_update_frame [where hdrs = rate_headers and st = "?st\<lparr>writable := False\<rparr>"
        and e = "StorageError ''QuotaExceededError''", THEN conjunct2, THEN conjunct2, THEN conjunct1] C
    by blast
  show ?thesis
    using A B C D by (simp add: p1 p2)
qed

text \<open>
  A header beyond \<open>2\<^sup>5\<^sup>3\<close> is stored as the double nearest to it, and a reset header
  whose product with 1000 is no double is stored as the double nearest to the product.
\<close>

lemma rate_limit_header_rounded:
  "updateRateLimit
       [''x-ratelimit-remaining'' \<mapsto> ''9007199254740993'',
        ''x-ratelimit-reset'' \<mapsto> ''72057594037929'', ''x-ratelimit-limit'' \<mapsto> ''5000'']
       (empty_storage :: GitHubUser storage)
     = Inr (empty_storage\<lparr>rate_limit :=
          Some \<lparr>remaining = Some 9007199254740992, reset = Some 72057594037928992,
                total_limit = Some 5000\<rparr>\<rparr>)"
proof -
  have p: "parseInt ''9007199254740993'' = Some 9007199254740992"
    "parseInt ''72057594037929'' = Some 72057594037929" "parseInt ''5000'' = Some 5000"
    by (simp_all add: parseInt_def parse_digits_def is_space_def is_digit_def digits_value_def
        digit_val_def js_number_rounds js_number_exact)
  have t: "js_times (Some 72057594037929) (Some 1000) = Some 72057594037928992"
    by (simp add: js_times_def js_number_def drop_bits_small drop_bits_large Let_def)
  show ?thesis
    by (simp add: updateRateLimit_def truthy_str_def empty_storage_def p t)
qed

section \<open>The cached fetch: a miss\<close>

text \<open>
  Claim C2, as amended. For every request that misses the cache and whose exchange completes,
  the tracker is updated from the response headers whatever the status; with that update in
  place (state \<open>st2\<close>), status 403 fails the call with \<open>RateLimitExceeded\<close>, every
  other non-success status (429 included) fails it with \<open>RequestFailed\<close> carrying the
  status and status text, and a success status decodes the body, stores it in the cache and
  returns it (a body on which decoding throws fails the call with the decoder's error). In
  every case the rate-limit state after the call is the updated one.
\<close>

theorem fetch_miss_outcome:
  assumes "getCachedData now (getCacheKey url) st = (None, st1)"
    and "net url = Responded r"
    and "updateRateLimit (headers r) st1 = Inr st2"
  shows "fetchWithCache net now now' url st =
           (if status r = 403 then (Inl RateLimitExceeded, st2, [url])
            else if \<not> ok r then (Inl (RequestFailed (status r) (statusText r)), st2, [url])
            else (case body r of
                    Inl m \<Rightarrow> (Inl (DecodeFailure m), st2, [url])
                  | Inr d \<Rightarrow> (Inr d, setCachedData now' (getCacheKey url) d st2, [url])))
         \<and> getRateLimit (fst (snd (fetchWithCache net now now' url st))) = getRateLimit st2"
  using assms
  by (auto simp: fetchWithCache_def ok_def getRateLimit_def setCachedData_def split: sum.splits)

text \<open>
  Scenario D: a 403 response with rate-limit headers on an empty cache; and a 200 response
  with a body, which is stored and returned.
\<close>

theorem fetch_miss_outcome_witness:
  "fetchWithCache (answers 403 ''Forbidden'' rate_headers (Inl ''no body'')) 0 5
       (GITHUB_API_BASE @ ''/users/torvalds'') (empty_storage :: GitHubUser storage)
     = (Inl RateLimitExceeded,
        empty_storage\<lparr>rate_limit :=
          Some \<lparr>remaining = Some 4999, reset = Some 1700000000000, total_limit = Some 5000\<rparr>\<rparr>,
        [GITHUB_API_BASE @ ''/users/torvalds''])
   \<and> fetchWithCache (answers 200 ''OK'' rate_headers (Inr torvalds)) 0 5
       (GITHUB_API_BASE @ ''/users/torvalds'') (empty_storage :: GitHubUser storage)
     = (Inr torvalds,
        \<lparr>cache = [getCacheKey (GITHUB_API_BASE @ ''/users/torvalds'') \<mapsto> Entry torvalds 5],
         rate_limit = Some \<lparr>remaining = Some 4999, reset = Some 1700000000000,
                            total_limit = Some 5000\<rparr>,
         writable = True\<rparr>,
        [GITHUB_API_BASE @ ''/users/torvalds''])"
proof -
  let ?url = "GITHUB_API_BASE @ ''/users/torvalds''"
  let ?st = "empty_storage :: GitHubUser storage"
  let ?st2 = "?st\<lparr>rate_limit :=
          Some \<lparr>remaining = Some 4999, reset = Some 1700000000000, total_limit = Some 5000\<rparr>\<rparr>"
  let ?r = "\<lparr>status = 403, statusText = ''Forbidden'', headers = rate_headers,
             body = (Inl ''no body'' :: string + GitHubUser)\<rparr>"
  let ?r2 = "\<lparr>status = 200, statusText = ''OK'', headers = rate_headers,
             body = (Inr torvalds :: string + GitHubUser)\<rparr>"
  have p: "parseInt ''4999'' = Some 4999" "parseInt ''1700000000'' = Some 1700000000"
    "parseInt ''5000'' = Some 5000"
    by (simp_all add: eval_parseInt)
  have miss: "getCachedData 0 (getCacheKey ?url) ?st = (None, ?st)"
    by (simp add: getCachedData_def empty_storage_def)
  have resp: "answers 403 ''Forbidden'' rate_headers (Inl ''no body'') ?url = Responded ?r"
    "answers 200 ''OK'' rate_headers (Inr torvalds) ?url = Responded ?r2"
    by (simp_all add: answers_def)
  have upd: "updateRateLimit (headers ?r) ?st = Inr ?st2"
    "updateRateLimit (headers ?r2) ?st = Inr ?st2"
    by (simp_all add: updateRateLimit_def rate_headers_def truthy_str_def empty_storage_def p
        js_times_def js_number_exact)
  have A: "fetchWithCache (answers 403 ''Forbidden'' rate_headers (Inl ''no body'')) 0 5 ?url ?st
             = (Inl RateLimitExceeded, ?st2, [?url])"
    using fetch_miss_outcome [where net = "answers 403 ''Forbidden'' rate_headers (Inl ''no body'')"
        and now = 0 and now' = 5 and url = ?url and st = ?st and ?st1.0 = ?st and r = ?r
        and ?st2.0 = ?st2] miss resp(1) upd(1)
    by simp
  have B: "fetchWithCache (answers 200 ''OK'' rate_headers (Inr torvalds)) 0 5 ?url ?st
             = (Inr torvalds, setCachedData 5 (getCacheKey ?url) torvalds ?st2, [?url])"
    using fetch_miss_outcome [where net = "answers 200 ''OK'' rate_headers (Inr torvalds)"
        and now = 0 and now' = 5 and url = ?url and st = ?st and ?st1.0 = ?st and r = ?r2
        and ?st2.0 = ?st2] miss resp(2) upd(2)
    by (simp add: ok_def)
  show ?thesis
    using A B by (simp add: setCachedData_def empty_storage_def)
qed

text \<open>
  The claim as written counts 429 among the quota-exhaustion statuses. A 429 response on a miss
  is reported as a failed request carrying its status, not as an exceeded rate limit.
\<close>

theorem rate_limit_429_counterexample:
  "fst (fetchWithCache (answers 429 ''Too Many Requests'' rate_headers (Inl ''no body'')) 0 5
          (GITHUB_API_BASE @ ''/users/torvalds'') (empty_storage :: GitHubUser storage))
     = Inl (RequestFailed 429 ''Too Many Requests'')
   \<and> fst (fetchWithCache (answers 429 ''Too Many Requests'' rate_headers (Inl ''no body'')) 0 5
          (GITHUB_API_BASE @ ''/users/torvalds'') (empty_storage :: GitHubUser storage))
     \<noteq> Inl RateLimitExceeded"
  by (simp add: fetchWithCache_def getCachedData_def empty_storage_def answers_def
      updateRateLimit_def rate_headers_def truthy_str_def ok_def)

section \<open>The query builder\<close>

lemma build_query_unfold:
  "build_query fs =
     query fs
       @ (if truthy_str (language fs) then '' language:'' @ the (language fs) else [])
       @ (if truthy_str (location fs)
          then '' location:'' @ [CHR 0x22] @ the (location fs) @ [CHR 0x22] else [])
       @ (if truthy_num (minRepos fs) then '' repos:>='' @ toString (the (minRepos fs)) else [])
       @ (if truthy_num (minFollowers fs)
          then '' followers:>='' @ toString (the (minFollowers fs)) else [])
       @ '' type:user''"
  unfolding build_query_def Let_def by simp

lemma clause_language_effective:
  "clause_language (effective_str v) = (if truthy_str v then '' language:'' @ the v else [])"
  by (cases v) (simp_all add: clause_language_def effective_str_def truthy_str_def)

lemma clause_location_effective:
  "clause_location (effective_str v)
     = (if truthy_str v then '' location:'' @ [CHR 0x22] @ the v @ [CHR 0x22] else [])"
  by (cases v) (simp_all add: clause_location_def effective_str_def truthy_str_def)

lemma clause_repos_effective:
  "clause_repos (effective_num v) = (if truthy_num v then '' repos:>='' @ toString (the v) else [])"
  by (cases v) (simp_all add: clause_repos_def effective_num_def truthy_num_def)

lemma clause_followers_effective:
  "clause_followers (effective_num v)
     = (if truthy_num v then '' followers:>='' @ toString (the v) else [])"
  by (cases v) (simp_all add: clause_followers_def effective_num_def truthy_num_def)

lemmas clause_effective = clause_language_effective clause_location_effective
  clause_repos_effective clause_followers_effective

lemma build_query_effective:
  "build_query fs =
     query fs @ clause_language (effective_str (language fs))
       @ clause_location (effective_str (location fs))
       @ clause_repos (effective_num (minRepos fs))
       @ clause_followers (effective_num (minFollowers fs)) @ '' type:user''"
  by (simp only: build_query_unfold clause_effective)

text \<open>
  Claim C3, as amended. For every filter object the built query is the base term, then
  \<open>language:<value>\<close> if language holds a non-empty string, then \<open>location:"<value>"\<close> if
  location holds a non-empty string, then \<open>repos:>=<n>\<close> if minRepos holds a number other
  than zero, then \<open>followers:>=<n>\<close> if minFollowers holds a number other than zero, then
  the fixed suffix \<open>type:user\<close>, in this order. The experience level contributes nothing.
  Replacing one optional field changes the clause of that field and nothing else, and an absent
  field has the empty clause. The builder is a function, so equal filters give equal strings.
\<close>

theorem build_query_clauses:
  "build_query fs =
     query fs @ clause_language (effective_str (language fs))
       @ clause_location (effective_str (location fs))
       @ clause_repos (effective_num (minRepos fs))
       @ clause_followers (effective_num (minFollowers fs)) @ '' type:user''
   \<and> build_query (fs\<lparr>experienceLevel := e\<rparr>) = build_query fs
   \<and> build_query (fs\<lparr>language := l\<rparr>) =
       query fs @ clause_language (effective_str l)
         @ clause_location (effective_str (location fs))
         @ clause_repos (effective_num (minRepos fs))
         @ clause_followers (effective_num (minFollowers fs)) @ '' type:user''
   \<and> build_query (fs\<lparr>location := l\<rparr>) =
       query fs @ clause_language (effective_str (language fs))
         @ clause_location (effective_str l)
         @ clause_repos (effective_num (minRepos fs))
         @ clause_followers (effective_num (minFollowers fs)) @ '' type:user''
   \<and> build_query (fs\<lparr>minRepos := n\<rparr>) =
       query fs @ clause_language (effective_str (language fs))
         @ clause_location (effective_str (location fs))
         @ clause_repos (effective_num n)
         @ clause_followers (effective_num (minFollowers fs)) @ '' type:user''
   \<and> build_query (fs\<lparr>minFollowers := n\<rparr>) =
       query fs @ clause_language (effective_str (language fs))
         @ clause_location (effective_str (location fs))
         @ clause_repos (effective_num (minRepos fs))
         @ clause_followers (effective_num n) @ '' type:user''
   \<and> clause_language None = [] \<and> clause_location None = []
   \<and> clause_repos None = [] \<and> clause_followers None = []"
proof (intro conjI)
  show "build_query fs =
     query fs @ clause_language (effective_str (language fs))
       @ clause_location (effective_str (location fs))
       @ clause_repos (effective_num (minRepos fs))
       @ clause_followers (effective_num (minFollowers fs)) @ '' type:user''"
    by (rule build_query_effective)
  show "build_query (fs\<lparr>experienceLevel := e\<rparr>) = build_query fs"
    by (simp add: build_query_unfold)
  show "build_query (fs\<lparr>language := l\<rparr>) =
       query fs @ clause_language (effective_str l)
         @ clause_location (effective_str (location fs))
         @ clause_repos (effective_num (minRepos fs))
         @ clause_followers (effective_num (minFollowers fs)) @ '' type:user''"
    using build_query_effective [of "fs\<lparr>language := l\<rparr>"] by simp
  show "build_query (fs\<lparr>location := l\<rparr>) =
       query fs @ clause_language (effective_str (language fs))
         @ clause_location (effective_str l)
         @ clause_repos (effective_num (minRepos fs))
         @ clause_followers (effective_num (minFollowers fs)) @ '' type:user''"
    using build_query_effective [of "fs\<lparr>location := l\<rparr>"] by simp
  show "build_query (fs\<lparr>minRepos := n\<rparr>) =
       query fs @ clause_language (effective_str (language fs))
         @ clause_location (effective_str (location fs))
         @ clause_repos (effective_num n)
         @ clause_followers (effective_num (minFollowers fs)) @ '' type:user''"
    using build_query_effective [of "fs\<lparr>minRepos := n\<rparr>"] by simp
  show "build_query (fs\<lparr>minFollowers := n\<rparr>) =
       query fs @ clause_language (effective_str (language fs))
         @ clause_location (effective_str (location fs))
         @ clause_repos (effective_num (minRepos fs))
         @ clause_followers (effective_num n) @ '' type:user''"
    using build_query_effective [of "fs\<lparr>minFollowers := n\<rparr>"] by simp
  show "clause_language None = []" by (simp add: clause_language_def)
  show "clause_location None = []" by (simp add: clause_location_def)
  show "clause_repos None = []" by (simp add: clause_repos_def)
  show "clause_followers None = []" by (simp add: clause_followers_def)
qed

text \<open>Scenario A: the language filter alone, then with an experience level and a threshold.\<close>

theorem build_query_clauses_witness:
  "build_query python_filters = ''python language:Python type:user''
   \<and> build_query (python_filters\<lparr>experienceLevel := Some Senior\<rparr>)
       = ''python language:Python type:user''
   \<and> build_query (python_filters\<lparr>minFollowers := Some 50\<rparr>)
       = ''python language:Python followers:>=50 type:user''"
proof -
  have v: "clause_language (effective_str (language python_filters)) = '' language:Python''"
    "clause_location (effective_str (location python_filters)) = []"
    "clause_repos (effective_num (minRepos python_filters)) = []"
    "clause_followers (effective_num (minFollowers python_filters)) = []"
    "clause_followers (effective_num (Some 50)) = '' followers:>=50''"
    "query python_filters = ''python''"
    by (simp_all add: clause_effective python_filters_def truthy_str_def truthy_num_def
        eval_toString)
  show ?thesis
    using build_query_clauses [where fs = python_filters and e = "Some Senior" and n = "Some 50"]
    by (simp add: v)
qed

text \<open>
  The claim as written appends the repository clause whenever minRepos is set. With minRepos
  set to 0 the words of the specification give a clause and the source gives none.
\<close>

theorem zero_threshold_counterexample:
  "QueryBuilder_build zero_repos_filters = ''react repos:>=0 type:user''
   \<and> build_query zero_repos_filters = ''react type:user''
   \<and> build_query zero_repos_filters \<noteq> QueryBuilder_build zero_repos_filters"
proof -
  have a: "QueryBuilder_build zero_repos_filters = ''react repos:>=0 type:user''"
    by (simp add: QueryBuilder_build_def zero_repos_filters_def clause_language_def
        clause_location_def clause_repos_def clause_followers_def eval_toString)
  have b: "build_query zero_repos_filters = ''react type:user''"
    by (simp add: build_query_unfold zero_repos_filters_def truthy_str_def truthy_num_def)
  show ?thesis
    using a b by simp
qed

section \<open>A zero threshold counts as no threshold\<close>

lemma compare_users_thresholds:
  "compare_users (fs\<lparr>minRepos := v\<rparr>) = compare_users fs"
  "compare_users (fs\<lparr>minFollowers := w\<rparr>) = compare_users fs"
  by (simp_all add: fun_eq_iff compare_users_def sort_value_def)

lemma cond_filter: "(if c then filter P xs else xs) = filter (\<lambda>u. P u \<or> \<not> c) xs"
  by (cases c) simp_all

text \<open>The pass as four filters that ignore the clock, the experience filter, and the sort.\<close>

lemma client_side_filter_unfold:
  "client_side_filter clock fs us =
     js_sort (compare_users fs)
       (case experienceLevel fs of
          None \<Rightarrow>
            filter (\<lambda>u. followers u \<ge> the (minFollowers fs) \<or> \<not> truthy_num (minFollowers fs))
            (filter (\<lambda>u. public_repos u \<ge> the (minRepos fs) \<or> \<not> truthy_num (minRepos fs))
            (filter (\<lambda>u. location_matches (the (location fs)) u \<or> \<not> truthy_str (location fs))
            (filter (\<lambda>u. language_matches (the (language fs)) u \<or> \<not> truthy_str (language fs))
               us)))
        | Some lvl \<Rightarrow>
            filter_level clock 0 lvl
            (filter (\<lambda>u. followers u \<ge> the (minFollowers fs) \<or> \<not> truthy_num (minFollowers fs))
            (filter (\<lambda>u. public_repos u \<ge> the (minRepos fs) \<or> \<not> truthy_num (minRepos fs))
            (filter (\<lambda>u. location_matches (the (location fs)) u \<or> \<not> truthy_str (location fs))
            (filter (\<lambda>u. language_matches (the (language fs)) u \<or> \<not> truthy_str (language fs))
               us)))))"
  by (simp only: client_side_filter_def Let_def cond_filter)

lemma client_side_filter_zero_repos:
  "client_side_filter clock (fs\<lparr>minRepos := Some 0\<rparr>) us
     = client_side_filter clock (fs\<lparr>minRepos := None\<rparr>) us"
  by (simp add: client_side_filter_unfold truthy_num_def compare_users_thresholds
      split: option.split)

lemma client_side_filter_zero_followers:
  "client_side_filter clock (fs\<lparr>minFollowers := Some 0\<rparr>) us
     = client_side_filter clock (fs\<lparr>minFollowers := None\<rparr>) us"
  by (simp add: client_side_filter_unfold truthy_num_def compare_users_thresholds
      split: option.split)

text \<open>
  Claim C10. A minRepos or minFollowers of 0 is treated as if the field were unset: the query
  term, the result of the client-side pass on every list of users (whatever the clock reads),
  and the test the debounced effect makes for active filters are the same for the value 0 as
  for an absent field.
\<close>

theorem zero_threshold_unset:
  "build_query (fs\<lparr>minRepos := Some 0\<rparr>) = build_query (fs\<lparr>minRepos := None\<rparr>)
   \<and> build_query (fs\<lparr>minFollowers := Some 0\<rparr>) = build_query (fs\<lparr>minFollowers := None\<rparr>)
   \<and> client_side_filter clock (fs\<lparr>minRepos := Some 0\<rparr>) us
       = client_side_filter clock (fs\<lparr>minRepos := None\<rparr>) us
   \<and> client_side_filter clock (fs\<lparr>minFollowers := Some 0\<rparr>) us
       = client_side_filter clock (fs\<lparr>minFollowers := None\<rparr>) us
   \<and> hasActiveFilters (fs\<lparr>minRepos := Some 0\<rparr>) = hasActiveFilters (fs\<lparr>minRepos := None\<rparr>)
   \<and> hasActiveFilters (fs\<lparr>minFollowers := Some 0\<rparr>)
       = hasActiveFilters (fs\<lparr>minFollowers := None\<rparr>)"
proof (intro conjI)
  show "build_query (fs\<lparr>minRepos := Some 0\<rparr>) = build_query (fs\<lparr>minRepos := None\<rparr>)"
    by (simp add: build_query_unfold truthy_num_def)
  show "build_query (fs\<lparr>minFollowers := Some 0\<rparr>) = build_query (fs\<lparr>minFollowers := None\<rparr>)"
    by (simp add: build_query_unfold truthy_num_def)
  show "client_side_filter clock (fs\<lparr>minRepos := Some 0\<rparr>) us
       = client_side_filter clock (fs\<lparr>minRepos := None\<rparr>) us"
    by (rule client_side_filter_zero_repos)
  show "client_side_filter clock (fs\<lparr>minFollowers := Some 0\<rparr>) us
       = client_side_filter clock (fs\<lparr>minFollowers := None\<rparr>) us"
    by (rule client_side_filter_zero_followers)
  show "hasActiveFilters (fs\<lparr>minRepos := Some 0\<rparr>) = hasActiveFilters (fs\<lparr>minRepos := None\<rparr>)"
    by (simp add: hasActiveFilters_def truthy_num_def)
  show "hasActiveFilters (fs\<lparr>minFollowers := Some 0\<rparr>)
       = hasActiveFilters (fs\<lparr>minFollowers := None\<rparr>)"
    by (simp add: hasActiveFilters_def truthy_num_def)
qed

text \<open>A text search for \<^verbatim>\<open>react\<close> with the repository threshold typed as 0.\<close>

theorem zero_threshold_unset_witness:
  "build_query zero_repos_filters = ''react type:user''
   \<and> build_query (zero_repos_filters\<lparr>minRepos := None\<rparr>) = ''react type:user''
   \<and> client_side_filter (\<lambda>k. 0) zero_repos_filters [octocat, torvalds] = [torvalds, octocat]
   \<and> client_side_filter (\<lambda>k. 0) (zero_repos_filters\<lparr>minRepos := None\<rparr>) [octocat, torvalds]
       = [torvalds, octocat]
   \<and> \<not> hasActiveFilters zero_repos_filters"
proof -
  have z: "zero_repos_filters\<lparr>minRepos := Some 0\<rparr> = zero_repos_filters"
    by (simp add: zero_repos_filters_def)
  have a: "build_query (zero_repos_filters\<lparr>minRepos := None\<rparr>) = ''react type:user''"
    by (simp add: build_query_unfold zero_repos_filters_def truthy_str_def truthy_num_def)
  have b: "client_side_filter (\<lambda>k. 0) (zero_repos_filters\<lparr>minRepos := None\<rparr>) [octocat, torvalds]
       = [torvalds, octocat]"
    by (simp add: client_side_filter_def zero_repos_filters_def truthy_str_def truthy_num_def
        torvalds_def octocat_def js_sort_def compare_users_def sort_value_def)
  have c: "\<not> hasActiveFilters (zero_repos_filters\<lparr>minRepos := None\<rparr>)"
    by (simp add: hasActiveFilters_def zero_repos_filters_def truthy_str_def truthy_num_def)
  show ?thesis
    using zero_threshold_unset [where fs = zero_repos_filters and clock = "\<lambda>k. 0"
        and us = "[octocat, torvalds]"]
    by (simp add: z a b c)
qed

text \<open>
  Scenario A: the language filter alone is an active filter, and the filtered search it
  triggers sends a query that carries \<open>language:Python\<close> and \<open>type:user\<close>.
\<close>

lemma lower_Python: "toLowerCase ''Python'' = ''python''"
  by (simp add: toLowerCase_def lower_char_def Let_def) code_simp

lemma language_filter_goes_remote:
  "hasActiveFilters python_filters
   \<and> build_query (filtered_search_filters python_filters) = ''python language:Python type:user''"
  by (simp add: hasActiveFilters_def python_filters_def truthy_str_def truthy_num_def
      build_query_unfold filtered_search_filters_def filtered_search_term_def lower_Python)

section \<open>The client-side pass on its own output\<close>

lemma set_insert_by: "set (insert_by cmp x xs) = insert x (set xs)"
  by (induction xs) auto

lemma set_js_sort: "set (js_sort cmp xs) = set xs"
  unfolding js_sort_def by (induction xs) (simp_all add: set_insert_by)

lemma insert_by_front:
  "sorted_wrt (\<lambda>a b. cmp a b \<le> 0) (x # xs) \<Longrightarrow> insert_by cmp x xs = x # xs"
  by (cases xs) simp_all

lemma js_sort_sorted:
  "sorted_wrt (\<lambda>a b. cmp a b \<le> 0) xs \<Longrightarrow> js_sort cmp xs = xs"
proof (induction xs)
  case Nil
  then show ?case by (simp add: js_sort_def)
next
  case (Cons x xs)
  then have "js_sort cmp xs = xs" by simp
  then have "js_sort cmp (x # xs) = insert_by cmp x xs"
    by (simp add: js_sort_def)
  with Cons.prems show ?case
    by (simp only: insert_by_front)
qed

lemma sorted_insert_by:
  assumes total: "\<And>a b. cmp a b \<le> 0 \<or> cmp b a \<le> 0"
    and trans: "\<And>a b c. cmp a b \<le> 0 \<Longrightarrow> cmp b c \<le> 0 \<Longrightarrow> cmp a c \<le> 0"
  shows "sorted_wrt (\<lambda>a b. cmp a b \<le> 0) xs
           \<Longrightarrow> sorted_wrt (\<lambda>a b. cmp a b \<le> 0) (insert_by cmp x xs)"
proof (induction xs)
  case Nil
  then show ?case by simp
next
  case (Cons y ys)
  show ?case
  proof (cases "cmp x y \<le> 0")
    case True
    with Cons.prems show ?thesis
      using trans by auto
  next
    case False
    then have yx: "cmp y x \<le> 0" using total by blast
    from Cons have "sorted_wrt (\<lambda>a b. cmp a b \<le> 0) (insert_by cmp x ys)" by simp
    with Cons.prems yx False show ?thesis
      by (auto simp: set_insert_by)
  qed
qed

lemma sorted_js_sort:
  assumes total: "\<And>a b. cmp a b \<le> 0 \<or> cmp b a \<le> 0"
    and trans: "\<And>a b c. cmp a b \<le> 0 \<Longrightarrow> cmp b c \<le> 0 \<Longrightarrow> cmp a c \<le> 0"
  shows "sorted_wrt (\<lambda>a b. cmp a b \<le> 0) (js_sort cmp xs)"
proof (induction xs)
  case Nil
  then show ?case by (simp add: js_sort_def)
next
  case (Cons x xs)
  have "js_sort cmp (x # xs) = insert_by cmp x (js_sort cmp xs)"
    by (simp add: js_sort_def)
  with Cons show ?case
    using sorted_insert_by [of cmp, OF total trans] by simp
qed

lemma sorted_compare_users:
  "sorted_wrt (\<lambda>a b. compare_users fs a b \<le> 0) (js_sort (compare_users fs) xs)"
  by (rule sorted_js_sort) (auto simp: compare_users_def)

lemma js_sort_compare_users_idem:
  "js_sort (compare_users fs) (js_sort (compare_users fs) xs) = js_sort (compare_users fs) xs"
  by (rule js_sort_sorted) (rule sorted_compare_users)

lemma filter_js_sort_all:
  "\<forall>x \<in> set xs. P x \<Longrightarrow> filter P (js_sort cmp xs) = js_sort cmp xs"
  by (simp add: set_js_sort)

lemma filter_level_subset: "set (filter_level clock k lvl xs) \<subseteq> set xs"
  by (induction xs arbitrary: k) auto

lemma filter_level_level:
  "u \<in> set (filter_level clock k lvl xs)
     \<Longrightarrow> \<exists>j. calculateExperienceLevel (clock j) (created_at u) (public_repos u) = lvl"
  by (induction xs arbitrary: k) (auto split: if_splits)

lemma filter_level_all:
  "\<forall>u \<in> set xs. \<forall>j. calculateExperienceLevel (clock j) (created_at u) (public_repos u) = lvl
     \<Longrightarrow> filter_level clock k lvl xs = xs"
  by (induction xs arbitrary: k) auto

lemma client_side_filter_sorted:
  "js_sort (compare_users fs) (client_side_filter clock fs us) = client_side_filter clock fs us"
  unfolding client_side_filter_unfold by (rule js_sort_compare_users_idem)

text \<open>What the first pass guarantees of every record it returns.\<close>

lemma client_side_filter_members:
  assumes "u \<in> set (client_side_filter clock fs us)"
  shows "(followers u \<ge> the (minFollowers fs) \<or> \<not> truthy_num (minFollowers fs))
         \<and> (public_repos u \<ge> the (minRepos fs) \<or> \<not> truthy_num (minRepos fs))
         \<and> (location_matches (the (location fs)) u \<or> \<not> truthy_str (location fs))
         \<and> (language_matches (the (language fs)) u \<or> \<not> truthy_str (language fs))
         \<and> (\<forall>lvl. experienceLevel fs = Some lvl
               \<longrightarrow> (\<exists>j. calculateExperienceLevel (clock j) (created_at u) (public_repos u) = lvl))"
proof (cases "experienceLevel fs")
  case None
  with assms show ?thesis
    by (auto simp: client_side_filter_unfold set_js_sort)
next
  case (Some lvl)
  with assms have m: "u \<in> set (filter_level clock 0 lvl
            (filter (\<lambda>u. followers u \<ge> the (minFollowers fs) \<or> \<not> truthy_num (minFollowers fs))
            (filter (\<lambda>u. public_repos u \<ge> the (minRepos fs) \<or> \<not> truthy_num (minRepos fs))
            (filter (\<lambda>u. location_matches (the (location fs)) u \<or> \<not> truthy_str (location fs))
            (filter (\<lambda>u. language_matches (the (language fs)) u \<or> \<not> truthy_str (language fs))
               us)))))"
    by (simp add: client_side_filter_unfold set_js_sort)
  from m have "\<exists>j. calculateExperienceLevel (clock j) (created_at u) (public_repos u) = lvl"
    by (rule filter_level_level)
  moreover from m filter_level_subset have "u \<in> set
            (filter (\<lambda>u. followers u \<ge> the (minFollowers fs) \<or> \<not> truthy_num (minFollowers fs))
            (filter (\<lambda>u. public_repos u \<ge> the (minRepos fs) \<or> \<not> truthy_num (minRepos fs))
            (filter (\<lambda>u. location_matches (the (location fs)) u \<or> \<not> truthy_str (location fs))
            (filter (\<lambda>u. language_matches (the (language fs)) u \<or> \<not> truthy_str (language fs))
               us))))"
    by blast
  ultimately show ?thesis
    using Some by auto
qed

text \<open>
  A second pass returns the output of the first whenever each record of that output still has
  the wanted level at every reading of the second clock.
\<close>

lemma second_pass_keeps:
  assumes "\<forall>u \<in> set (client_side_filter c1 fs us). \<forall>lvl j. experienceLevel fs = Some lvl
             \<longrightarrow> calculateExperienceLevel (c2 j) (created_at u) (public_repos u) = lvl"
  shows "client_side_filter c2 fs (client_side_filter c1 fs us) = client_side_filter c1 fs us"
proof -
  let ?ys = "client_side_filter c1 fs us"
  have mem: "\<forall>u \<in> set ?ys.
         (followers u \<ge> the (minFollowers fs) \<or> \<not> truthy_num (minFollowers fs))
         \<and> (public_repos u \<ge> the (minRepos fs) \<or> \<not> truthy_num (minRepos fs))
         \<and> (location_matches (the (location fs)) u \<or> \<not> truthy_str (location fs))
         \<and> (language_matches (the (language fs)) u \<or> \<not> truthy_str (language fs))"
    using client_side_filter_members [of _ c1 fs us] by blast
  have plain: "filter (\<lambda>u. followers u \<ge> the (minFollowers fs) \<or> \<not> truthy_num (minFollowers fs))
            (filter (\<lambda>u. public_repos u \<ge> the (minRepos fs) \<or> \<not> truthy_num (minRepos fs))
            (filter (\<lambda>u. location_matches (the (location fs)) u \<or> \<not> truthy_str (location fs))
            (filter (\<lambda>u. language_matches (the (language fs)) u \<or> \<not> truthy_str (language fs))
               ?ys))) = ?ys"
    using mem by (simp add: filter_id_conv)
  have sorted: "js_sort (compare_users fs) ?ys = ?ys"
    by (rule client_side_filter_sorted)
  show ?thesis
  proof (cases "experienceLevel fs")
    case None
    show ?thesis
      by (subst client_side_filter_unfold) (simp only: None option.case plain sorted)
  next
    case (Some lvl)
    with assms have level: "filter_level c2 0 lvl ?ys = ?ys"
      by (intro filter_level_all) auto
    show ?thesis
      by (subst client_side_filter_unfold) (simp only: Some option.case plain level sorted)
  qed
qed

text \<open>A senior account stays senior as the clock advances.\<close>

lemma senior_stays:
  assumes "calculateExperienceLevel t c r = Senior" and "t \<le> t'"
  shows "calculateExperienceLevel t' c r = Senior"
  using assms
  unfolding calculateExperienceLevel_def yearsActive_junior_ms yearsActive_senior_ms
  by (auto split: if_splits)

text \<open>
  Claim C8, as amended. Running the filter-and-sort pass on the output of that pass with the
  same filters gives that output again, in the same order, for every list of users and every
  filter object, when the filters carry no experience level (whatever the two clocks read),
  when the level is senior and no reading of the second pass is earlier than a reading of the
  first, and when both passes read one and the same clock value for every record.
\<close>

theorem client_side_filter_idempotent:
  "(experienceLevel fs = None
      \<longrightarrow> client_side_filter c2 fs (client_side_filter c1 fs us) = client_side_filter c1 fs us)
   \<and> (experienceLevel fs = Some Senior \<and> (\<forall>i j. c1 i \<le> c2 j)
      \<longrightarrow> client_side_filter c2 fs (client_side_filter c1 fs us) = client_side_filter c1 fs us)
   \<and> client_side_filter (\<lambda>k. now) fs (client_side_filter (\<lambda>k. now) fs us)
       = client_side_filter (\<lambda>k. now) fs us"
proof (intro conjI impI)
  assume "experienceLevel fs = None"
  then show "client_side_filter c2 fs (client_side_filter c1 fs us) = client_side_filter c1 fs us"
    by (intro second_pass_keeps) simp
next
  assume a: "experienceLevel fs = Some Senior \<and> (\<forall>i j. c1 i \<le> c2 j)"
  show "client_side_filter c2 fs (client_side_filter c1 fs us) = client_side_filter c1 fs us"
  proof (rule second_pass_keeps, intro ballI allI impI)
    fix u lvl j
    assume u: "u \<in> set (client_side_filter c1 fs us)" and l: "experienceLevel fs = Some lvl"
    from l a have lvl: "lvl = Senior" by simp
    from client_side_filter_members [OF u] a obtain i
      where "calculateExperienceLevel (c1 i) (created_at u) (public_repos u) = Senior"
      by auto
    moreover from a have "c1 i \<le> c2 j" by simp
    ultimately show "calculateExperienceLevel (c2 j) (created_at u) (public_repos u) = lvl"
      unfolding lvl by (rule senior_stays)
  qed
next
  show "client_side_filter (\<lambda>k. now) fs (client_side_filter (\<lambda>k. now) fs us)
       = client_side_filter (\<lambda>k. now) fs us"
  proof (rule second_pass_keeps, intro ballI allI impI)
    fix u lvl j
    assume u: "u \<in> set (client_side_filter (\<lambda>k. now) fs us)"
      and l: "experienceLevel fs = Some lvl"
    from client_side_filter_members [OF u] l
    show "calculateExperienceLevel now (created_at u) (public_repos u) = lvl"
      by auto
  qed
qed

text \<open>
  A follower threshold with two different clocks; the senior filter with the second pass a
  year after the first; the junior filter with both passes at the same reading.
\<close>

theorem client_side_filter_idempotent_witness:
  "client_side_filter (\<lambda>k. int k) (default_filters\<lparr>minFollowers := Some 5000, order := Some Asc\<rparr>)
       [torvalds, octocat, newcomer] = [octocat, torvalds]
   \<and> client_side_filter (\<lambda>k. 5000 + int k)
       (default_filters\<lparr>minFollowers := Some 5000, order := Some Asc\<rparr>)
       [octocat, torvalds] = [octocat, torvalds]
   \<and> client_side_filter (\<lambda>k. 200000000000 + int (min k 7))
       (default_filters\<lparr>experienceLevel := Some Senior\<rparr>) [newcomer, octocat] = [newcomer]
   \<and> client_side_filter (\<lambda>k. 231536000000 + int k)
       (default_filters\<lparr>experienceLevel := Some Senior\<rparr>) [newcomer] = [newcomer]
   \<and> client_side_filter (\<lambda>k. 78840000000)
       (default_filters\<lparr>experienceLevel := Some Junior\<rparr>) [newcomer] = [newcomer]"
proof -
  let ?ff = "default_filters\<lparr>minFollowers := Some 5000, order := Some Asc\<rparr>"
  let ?sf = "default_filters\<lparr>experienceLevel := Some Senior\<rparr>"
  let ?jf = "default_filters\<lparr>experienceLevel := Some Junior\<rparr>"
  have a: "client_side_filter (\<lambda>k. int k) ?ff [torvalds, octocat, newcomer] = [octocat, torvalds]"
    by (simp add: client_side_filter_def default_filters_def truthy_str_def truthy_num_def
        torvalds_def octocat_def newcomer_def js_sort_def compare_users_def sort_value_def)
  have b: "client_side_filter (\<lambda>k. 200000000000 + int (min k 7)) ?sf [newcomer, octocat] = [newcomer]"
    by (simp add: client_side_filter_def default_filters_def truthy_str_def truthy_num_def
        octocat_def newcomer_def js_sort_def calculateExperienceLevel_def yearsActive_def)
  have c: "client_side_filter (\<lambda>k. 78840000000) ?jf [newcomer] = [newcomer]"
    by (simp add: client_side_filter_def default_filters_def truthy_str_def truthy_num_def
        newcomer_def js_sort_def calculateExperienceLevel_def yearsActive_def)
  have d: "client_side_filter (\<lambda>k. 5000 + int k) ?ff [octocat, torvalds] = [octocat, torvalds]"
    by (simp add: client_side_filter_def default_filters_def truthy_str_def truthy_num_def
        torvalds_def octocat_def js_sort_def compare_users_def sort_value_def)
  have n: "experienceLevel ?ff = None" "experienceLevel ?sf = Some Senior"
    by (simp_all add: default_filters_def)
  have later: "\<forall>i j. 200000000000 + int (min i 7) \<le> 231536000000 + int j"
  proof (intro allI)
    fix i j :: nat
    have "int (min i 7) \<le> 7" by simp
    then show "200000000000 + int (min i 7) \<le> 231536000000 + int j" by linarith
  qed
  show ?thesis
    using client_side_filter_idempotent [where fs = ?ff and ?c1.0 = "\<lambda>k. int k"
        and ?c2.0 = "\<lambda>k. 5000 + int k" and us = "[torvalds, octocat, newcomer]",
        THEN conjunct1]
      client_side_filter_idempotent [where fs = ?sf and ?c1.0 = "\<lambda>k. 200000000000 + int (min k 7)"
        and ?c2.0 = "\<lambda>k. 231536000000 + int k" and us = "[newcomer, octocat]",
        THEN conjunct2, THEN conjunct1]
      client_side_filter_idempotent [where fs = ?jf and now = 78840000000
        and us = "[newcomer]", THEN conjunct2, THEN conjunct2]
      n later
    by (simp add: a b c)
qed

text \<open>
  The claim as written covers every filter object. With the junior filter, the pass keeps an
  account that is 2.5 years old to the millisecond, and a second pass one millisecond later
  over that output returns nothing.
\<close>

theorem second_pass_later_counterexample:
  "client_side_filter (\<lambda>k. 78840000000) (default_filters\<lparr>experienceLevel := Some Junior\<rparr>)
       [newcomer] = [newcomer]
   \<and> client_side_filter (\<lambda>k. 78840000001) (default_filters\<lparr>experienceLevel := Some Junior\<rparr>)
       (client_side_filter (\<lambda>k. 78840000000)
          (default_filters\<lparr>experienceLevel := Some Junior\<rparr>) [newcomer]) = []
   \<and> client_side_filter (\<lambda>k. 78840000001) (default_filters\<lparr>experienceLevel := Some Junior\<rparr>)
       (client_side_filter (\<lambda>k. 78840000000)
          (default_filters\<lparr>experienceLevel := Some Junior\<rparr>) [newcomer])
     \<noteq> client_side_filter (\<lambda>k. 78840000000)
          (default_filters\<lparr>experienceLevel := Some Junior\<rparr>) [newcomer]"
proof -
  let ?jf = "default_filters\<lparr>experienceLevel := Some Junior\<rparr>"
  have a: "client_side_filter (\<lambda>k. 78840000000) ?jf [newcomer] = [newcomer]"
    by (simp add: client_side_filter_def default_filters_def truthy_str_def truthy_num_def
        newcomer_def js_sort_def calculateExperienceLevel_def yearsActive_def)
  have b: "client_side_filter (\<lambda>k. 78840000001) ?jf [newcomer] = []"
    by (simp add: client_side_filter_def default_filters_def truthy_str_def truthy_num_def
        newcomer_def js_sort_def calculateExperienceLevel_def yearsActive_def)
  show ?thesis
    by (simp add: a b)
qed

section \<open>A failed search keeps the last results\<close>

lemma api_searchUsers_fst:
  "fst (api_searchUsers net now now' fs page perPage st) =
     (case fst (fetchWithCache net now now' (search_url fs page perPage) st) of
        Inl e \<Rightarrow> Inl e
      | Inr result \<Rightarrow> Inr \<lparr>users = items result, total_count = body_total_count result,
                          incomplete_results = body_incomplete_results result\<rparr>)"
  by (cases "fetchWithCache net now now' (search_url fs page perPage) st" rule: prod_cases3)
     (auto simp: api_searchUsers_def split: sum.splits)

lemma api_searchUsers_sent:
  "snd (snd (api_searchUsers net now now' fs page perPage st))
     = snd (snd (fetchWithCache net now now' (search_url fs page perPage) st))"
  by (cases "fetchWithCache net now now' (search_url fs page perPage) st" rule: prod_cases3)
     (auto simp: api_searchUsers_def split: sum.splits)

text \<open>The three ways in which the request of a search fails on a miss.\<close>

lemma fetch_network_failure:
  assumes "fst (getCachedData now (getCacheKey url) st) = None" and "net url = Rejected m"
  shows "fst (fetchWithCache net now now' url st) = Inl (NetworkError m)"
  using assms
  by (cases "getCachedData now (getCacheKey url) st") (simp add: fetchWithCache_def)

lemma fetch_status_failure:
  assumes "fst (getCachedData now (getCacheKey url) st) = None" and "net url = Responded r"
    and "updateRateLimit (headers r) (snd (getCachedData now (getCacheKey url) st)) = Inr st2"
    and "\<not> ok r"
  shows "fst (fetchWithCache net now now' url st)
           = Inl (if status r = 403 then RateLimitExceeded
                  else RequestFailed (status r) (statusText r))"
  using assms
  by (cases "getCachedData now (getCacheKey url) st") (simp add: fetchWithCache_def)

lemma fetch_decode_failure:
  assumes "fst (getCachedData now (getCacheKey url) st) = None" and "net url = Responded r"
    and "updateRateLimit (headers r) (snd (getCachedData now (getCacheKey url) st)) = Inr st2"
    and "ok r" and "body r = Inl m"
  shows "fst (fetchWithCache net now now' url st) = Inl (DecodeFailure m)"
  using assms
  by (cases "getCachedData now (getCacheKey url) st") (simp add: fetchWithCache_def)

lemma performFilteredSearch_failure:
  assumes "authUser s"
    and "fst (api_searchUsers net now now' (filtered_search_filters (filters s)) 1 50 st) = Inl e"
  shows "fst (performFilteredSearch net now now' (s, st))
           = s\<lparr>isLoading := False, error := Some (error_message e), isOnHomePage := False\<rparr>"
  using assms
  by (cases "api_searchUsers net now now' (filtered_search_filters (filters s)) 1 50 st"
        rule: prod_cases3)
     (simp add: performFilteredSearch_def)

lemma searchUsers_failure:
  assumes "trim (searchQuery s) \<noteq> []"
    and "fst (api_searchUsers net now now' (text_search_filters (trim (searchQuery s)) (filters s))
               page 50 st) = Inl e"
  shows "fst (searchUsers net now now' page ap (s, st))
           = s\<lparr>isLoading := False, error := Some (error_message e),
               lastSearchQuery := trim (searchQuery s), isOnHomePage := False\<rparr>"
  using assms
  by (cases "api_searchUsers net now now' (text_search_filters (trim (searchQuery s)) (filters s))
               page 50 st" rule: prod_cases3)
     (simp add: searchUsers_def)

text \<open>
  Claim C7, as amended. For every filtered search and every text search whose request fails
  with an error \<open>e\<close> (the exchange is rejected, the status is a failure status, or the body
  is not valid JSON), the view ends with the message of \<open>e\<close> as its error and with the
  fetched list, the displayed list and the total count it had before.
\<close>

theorem failed_search_keeps_results:
  "(authUser s
      \<and> fst (api_searchUsers net now now' (filtered_search_filters (filters s)) 1 50 st) = Inl e
    \<longrightarrow> error (fst (performFilteredSearch net now now' (s, st))) = Some (error_message e)
        \<and> allUsers (fst (performFilteredSearch net now now' (s, st))) = allUsers s
        \<and> filteredUsers (fst (performFilteredSearch net now now' (s, st))) = filteredUsers s
        \<and> totalResults (fst (performFilteredSearch net now now' (s, st))) = totalResults s)
   \<and> (trim (searchQuery s) \<noteq> []
      \<and> fst (api_searchUsers net now now' (text_search_filters (trim (searchQuery s)) (filters s))
               page 50 st) = Inl e
    \<longrightarrow> error (fst (searchUsers net now now' page ap (s, st))) = Some (error_message e)
        \<and> allUsers (fst (searchUsers net now now' page ap (s, st))) = allUsers s
        \<and> filteredUsers (fst (searchUsers net now now' page ap (s, st))) = filteredUsers s
        \<and> totalResults (fst (searchUsers net now now' page ap (s, st))) = totalResults s)"
proof (intro conjI impI)
  assume a: "authUser s
      \<and> fst (api_searchUsers net now now' (filtered_search_filters (filters s)) 1 50 st) = Inl e"
  then have eq: "fst (performFilteredSearch net now now' (s, st))
           = s\<lparr>isLoading := False, error := Some (error_message e), isOnHomePage := False\<rparr>"
    by (simp add: performFilteredSearch_failure)
  show "error (fst (performFilteredSearch net now now' (s, st))) = Some (error_message e)"
    by (simp add: eq)
  show "allUsers (fst (performFilteredSearch net now now' (s, st))) = allUsers s"
    by (simp add: eq)
  show "filteredUsers (fst (performFilteredSearch net now now' (s, st))) = filteredUsers s"
    by (simp add: eq)
  show "totalResults (fst (performFilteredSearch net now now' (s, st))) = totalResults s"
    by (simp add: eq)
next
  assume a: "trim (searchQuery s) \<noteq> []
      \<and> fst (api_searchUsers net now now' (text_search_filters (trim (searchQuery s)) (filters s))
               page 50 st) = Inl e"
  then have eq: "fst (searchUsers net now now' page ap (s, st))
           = s\<lparr>isLoading := False, error := Some (error_message e),
               lastSearchQuery := trim (searchQuery s), isOnHomePage := False\<rparr>"
    by (simp add: searchUsers_failure)
  show "error (fst (searchUsers net now now' page ap (s, st))) = Some (error_message e)"
    by (simp add: eq)
  show "allUsers (fst (searchUsers net now now' page ap (s, st))) = allUsers s"
    by (simp add: eq)
  show "filteredUsers (fst (searchUsers net now now' page ap (s, st))) = filteredUsers s"
    by (simp add: eq)
  show "totalResults (fst (searchUsers net now now' page ap (s, st))) = totalResults s"
    by (simp add: eq)
qed

lemma trim_linux: "trim ''linux'' = ''linux''"
  by (simp add: trim_def is_space_def)

lemma miss_on_empty: "getCachedData now k empty_storage = (None, empty_storage)"
  by (simp add: getCachedData_def empty_storage_def)

lemma api_search_offline:
  "fst (api_searchUsers offline now now' fs page perPage empty_storage)
     = Inl (NetworkError ''Failed to fetch'')"
  by (simp add: api_searchUsers_fst fetch_network_failure miss_on_empty offline_def)

lemma api_search_bad_json:
  "fst (api_searchUsers (answers 200 ''OK'' rate_headers (Inl ''Unexpected end of JSON input''))
          now now' fs page perPage empty_storage)
     = Inl (DecodeFailure ''Unexpected end of JSON input'')"
  by (simp add: api_searchUsers_fst fetchWithCache_def getCachedData_def empty_storage_def
      answers_def updateRateLimit_def rate_headers_def truthy_str_def ok_def Let_def)

text \<open>
  The filtered search with the network down and with a body that is not JSON, and the text
  search with the network down, on a view that shows 50 records of 500.
\<close>

theorem failed_search_keeps_results_witness:
  "error (fst (performFilteredSearch offline 0 5
        (first_page_state\<lparr>filters := python_filters\<rparr>, empty_storage))) = Some ''Failed to fetch''
   \<and> allUsers (fst (performFilteredSearch offline 0 5
        (first_page_state\<lparr>filters := python_filters\<rparr>, empty_storage)))
       = Some (replicate 50 torvalds)
   \<and> totalResults (fst (performFilteredSearch offline 0 5
        (first_page_state\<lparr>filters := python_filters\<rparr>, empty_storage))) = Some 500
   \<and> error (fst (performFilteredSearch
        (answers 200 ''OK'' rate_headers (Inl ''Unexpected end of JSON input'')) 0 5
        (first_page_state\<lparr>filters := python_filters\<rparr>, empty_storage)))
       = Some ''Unexpected end of JSON input''
   \<and> filteredUsers (fst (performFilteredSearch
        (answers 200 ''OK'' rate_headers (Inl ''Unexpected end of JSON input'')) 0 5
        (first_page_state\<lparr>filters := python_filters\<rparr>, empty_storage)))
       = Some (replicate 50 torvalds)
   \<and> error (fst (searchUsers offline 0 5 1 False (first_page_state, empty_storage)))
        = Some ''Failed to fetch''
   \<and> filteredUsers (fst (searchUsers offline 0 5 1 False (first_page_state, empty_storage)))
        = Some (replicate 50 torvalds)"
proof -
  have au: "authUser (first_page_state\<lparr>filters := python_filters\<rparr>)"
    by (simp add: first_page_state_def)
  have tq: "trim (searchQuery first_page_state) \<noteq> []"
    by (simp add: first_page_state_def trim_linux)
  have vals: "allUsers first_page_state = Some (replicate 50 torvalds)"
    "filteredUsers first_page_state = Some (replicate 50 torvalds)"
    "totalResults first_page_state = Some 500"
    by (simp_all add: first_page_state_def)
  show ?thesis
    using failed_search_keeps_results [where s = "first_page_state\<lparr>filters := python_filters\<rparr>"
        and net = offline and now = 0 and now' = 5 and st = empty_storage
        and e = "NetworkError ''Failed to fetch''", THEN conjunct1]
      failed_search_keeps_results [where s = "first_page_state\<lparr>filters := python_filters\<rparr>"
        and net = "answers 200 ''OK'' rate_headers (Inl ''Unexpected end of JSON input'')"
        and now = 0 and now' = 5 and st = empty_storage
        and e = "DecodeFailure ''Unexpected end of JSON input''", THEN conjunct1]
      failed_search_keeps_results [where s = first_page_state
        and net = offline and now = 0 and now' = 5 and st = empty_storage
        and e = "NetworkError ''Failed to fetch''" and page = 1 and ap = False, THEN conjunct2]
      au tq
    by (simp add: api_search_offline api_search_bad_json vals)
qed

lemma fetch_ok_body:
  "fetchWithCache (answers 200 ''OK'' rate_headers (Inr b)) 0 5 url empty_storage
     = (Inr b,
        \<lparr>cache = [getCacheKey url \<mapsto> Entry b 5],
         rate_limit = Some \<lparr>remaining = Some 4999, reset = Some 1700000000000,
                            total_limit = Some 5000\<rparr>,
         writable = True\<rparr>,
        [url])"
proof -
  have p: "parseInt ''4999'' = Some 4999" "parseInt ''1700000000'' = Some 1700000000"
    "parseInt ''5000'' = Some 5000"
    by (simp_all add: eval_parseInt)
  show ?thesis
    by (simp add: fetchWithCache_def getCachedData_def empty_storage_def
        answers_def updateRateLimit_def rate_headers_def truthy_str_def ok_def setCachedData_def p
        js_times_def js_number_exact)
qed

text \<open>
  The claim as written covers every decoding failure. A success response whose body is the
  JSON text \<^verbatim>\<open>{}\<close> decodes to an object without \<^verbatim>\<open>items\<close>: the filtered search and
  the text search both end with an error message, and with the fetched list, the displayed list
  and the total count overwritten by \<^verbatim>\<open>undefined\<close>, where the view showed 50 records of
  500 before.
\<close>

theorem wrong_shape_body_counterexample:
  "allUsers (first_page_state\<lparr>filters := python_filters\<rparr>) = Some (replicate 50 torvalds)
   \<and> totalResults (first_page_state\<lparr>filters := python_filters\<rparr>) = Some 500
   \<and> error (fst (performFilteredSearch (answers 200 ''OK'' rate_headers (Inr empty_object)) 0 5
        (first_page_state\<lparr>filters := python_filters\<rparr>, empty_storage))) = Some TypeError_length
   \<and> allUsers (fst (performFilteredSearch (answers 200 ''OK'' rate_headers (Inr empty_object)) 0 5
        (first_page_state\<lparr>filters := python_filters\<rparr>, empty_storage))) = None
   \<and> filteredUsers (fst (performFilteredSearch (answers 200 ''OK'' rate_headers (Inr empty_object))
        0 5 (first_page_state\<lparr>filters := python_filters\<rparr>, empty_storage))) = None
   \<and> totalResults (fst (performFilteredSearch (answers 200 ''OK'' rate_headers (Inr empty_object))
        0 5 (first_page_state\<lparr>filters := python_filters\<rparr>, empty_storage))) = None
   \<and> error (fst (searchUsers (answers 200 ''OK'' rate_headers (Inr empty_object)) 0 5 1 False
        (first_page_state, empty_storage))) = Some TypeError_length
   \<and> allUsers (fst (searchUsers (answers 200 ''OK'' rate_headers (Inr empty_object)) 0 5 1 False
        (first_page_state, empty_storage))) = None
   \<and> filteredUsers (fst (searchUsers (answers 200 ''OK'' rate_headers (Inr empty_object)) 0 5 1
        False (first_page_state, empty_storage))) = None
   \<and> totalResults (fst (searchUsers (answers 200 ''OK'' rate_headers (Inr empty_object)) 0 5 1
        False (first_page_state, empty_storage))) = None"
proof -
  let ?net = "answers 200 ''OK'' rate_headers (Inr empty_object) :: string \<Rightarrow> search_body exchange"
  have api: "fst (api_searchUsers ?net 0 5 fs page 50 empty_storage)
               = Inr \<lparr>users = None, total_count = None, incomplete_results = None\<rparr>" for fs page
    by (simp add: api_searchUsers_def fetch_ok_body, simp add: empty_object_def)
  have pf: "fst (performFilteredSearch ?net 0 5
                   (first_page_state\<lparr>filters := python_filters\<rparr>, empty_storage))
              = first_page_state\<lparr>filters := python_filters, allUsers := None,
                  filteredUsers := None, totalResults := None,
                  lastSearchQuery := filtered_search_term python_filters,
                  rateLimit := Some \<lparr>remaining = Some 4999, reset = Some 1700000000000,
                                      total_limit = Some 5000\<rparr>,
                  error := Some TypeError_length\<rparr>"
    by (simp add: performFilteredSearch_def api_searchUsers_def fetch_ok_body Let_def,
        simp add: empty_object_def first_page_state_def getRateLimit_def)
  have su: "fst (searchUsers ?net 0 5 1 False (first_page_state, empty_storage))
              = first_page_state\<lparr>allUsers := None, filteredUsers := None, totalResults := None,
                  error := Some TypeError_length\<rparr>"
    by (simp add: searchUsers_def api_searchUsers_def fetch_ok_body Let_def
          first_page_state_def trim_linux,
        simp add: empty_object_def)
  show ?thesis
    unfolding pf su by (simp add: first_page_state_def)
qed

section \<open>Load more\<close>

lemma loadMoreResults_unfold:
  assumes "hasMoreResults s" and "\<not> isLoading s"
  shows "loadMoreResults net now now' (s, st)
           = searchUsers net now now' (currentPage s + 1) True (s\<lparr>currentPage := currentPage s + 1\<rparr>, st)"
  using assms by (simp add: loadMoreResults_def Let_def)

lemma searchUsers_success:
  assumes "trim (searchQuery s) \<noteq> []"
    and "fst (api_searchUsers net now now' (text_search_filters (trim (searchQuery s)) (filters s))
               page 50 st) = Inr result"
    and "users result = Some us" and "allUsers s = Some xs" and "filteredUsers s = Some ys"
  shows "fst (searchUsers net now now' page True (s, st))
           = s\<lparr>allUsers := Some (xs @ us),
               filteredUsers := Some (ys @ us),
               isLoading := False, error := None,
               totalResults := total_count result,
               rateLimit := getRateLimit (fst (snd (api_searchUsers net now now'
                    (text_search_filters (trim (searchQuery s)) (filters s)) page 50 st))),
               hasMoreResults := (int (length us) = 50
                          \<and> (case total_count result of
                                None \<Rightarrow> False
                              | Some n \<Rightarrow> page * 50 < min n 1000)),
               lastSearchQuery := trim (searchQuery s), isOnHomePage := False\<rparr>"
  using assms
  by (cases "api_searchUsers net now now' (text_search_filters (trim (searchQuery s)) (filters s))
               page 50 st" rule: prod_cases3)
     (simp add: searchUsers_def run_append_updaters_def)

lemma searchUsers_sent:
  assumes "trim (searchQuery s) \<noteq> []"
  shows "snd (snd (searchUsers net now now' page ap (s, st)))
           = snd (snd (api_searchUsers net now now'
                (text_search_filters (trim (searchQuery s)) (filters s)) page 50 st))"
  using assms
  by (cases "api_searchUsers net now now' (text_search_filters (trim (searchQuery s)) (filters s))
               page 50 st" rule: prod_cases3)
     (auto simp: searchUsers_def Let_def split: sum.splits option.splits)

text \<open>
  With text in the search box that is not blank, the action loads the next page: the
  exchanges started are those of the search request for the page after the current one; when
  that request returns a list, the page counter is incremented, the returned records are
  appended after the fetched and the displayed records, which keep their order, more results
  stay on offer exactly when the page was full and the next offset lies below the smaller of
  the total and 1000, and a page of exactly 50 records makes the list 50 longer.
\<close>

lemma load_more_appends:
  assumes "hasMoreResults s" and "\<not> isLoading s" and "trim (searchQuery s) \<noteq> []"
  shows "snd (snd (loadMoreResults net now now' (s, st)))
           = snd (snd (api_searchUsers net now now'
                (text_search_filters (trim (searchQuery s)) (filters s)) (currentPage s + 1) 50 st))
         \<and> (fst (api_searchUsers net now now'
                (text_search_filters (trim (searchQuery s)) (filters s)) (currentPage s + 1) 50 st)
              = Inr result
            \<and> users result = Some us \<and> allUsers s = Some xs \<and> filteredUsers s = Some ys
            \<longrightarrow> currentPage (fst (loadMoreResults net now now' (s, st))) = currentPage s + 1
              \<and> allUsers (fst (loadMoreResults net now now' (s, st))) = Some (xs @ us)
              \<and> filteredUsers (fst (loadMoreResults net now now' (s, st))) = Some (ys @ us)
              \<and> hasMoreResults (fst (loadMoreResults net now now' (s, st)))
                  = (int (length us) = 50
                     \<and> (case total_count result of
                           None \<Rightarrow> False
                         | Some n \<Rightarrow> (currentPage s + 1) * 50 < min n 1000))
              \<and> (hasMoreResults (fst (loadMoreResults net now now' (s, st)))
                  \<longrightarrow> (currentPage s + 1) * 50 < 1000)
              \<and> (length us = 50 \<longrightarrow> length (xs @ us) = length xs + 50))"
proof (intro conjI impI)
  let ?s = "s\<lparr>currentPage := currentPage s + 1\<rparr>"
  have lm: "loadMoreResults net now now' (s, st)
              = searchUsers net now now' (currentPage s + 1) True (?s, st)"
    using assms(1,2) by (rule loadMoreResults_unfold)
  have q: "trim (searchQuery ?s) \<noteq> []" "searchQuery ?s = searchQuery s" "filters ?s = filters s"
    using assms(3) by simp_all
  show "snd (snd (loadMoreResults net now now' (s, st)))
           = snd (snd (api_searchUsers net now now'
                (text_search_filters (trim (searchQuery s)) (filters s)) (currentPage s + 1) 50 st))"
    using searchUsers_sent [OF q(1), of net now now' "currentPage s + 1" True st]
    by (simp add: lm)
  assume r: "fst (api_searchUsers net now now'
                (text_search_filters (trim (searchQuery s)) (filters s)) (currentPage s + 1) 50 st)
              = Inr result
            \<and> users result = Some us \<and> allUsers s = Some xs \<and> filteredUsers s = Some ys"
  have eq: "fst (loadMoreResults net now now' (s, st))
           = ?s\<lparr>allUsers := Some (xs @ us),
               filteredUsers := Some (ys @ us),
               isLoading := False, error := None,
               totalResults := total_count result,
               rateLimit := getRateLimit (fst (snd (api_searchUsers net now now'
                    (text_search_filters (trim (searchQuery ?s)) (filters ?s))
                    (currentPage s + 1) 50 st))),
               hasMoreResults := (int (length us) = 50
                          \<and> (case total_count result of
                                None \<Rightarrow> False
                              | Some n \<Rightarrow> (currentPage s + 1) * 50 < min n 1000)),
               lastSearchQuery := trim (searchQuery ?s), isOnHomePage := False\<rparr>"
    unfolding lm
    by (rule searchUsers_success [OF q(1)]) (simp_all add: r)
  show "currentPage (fst (loadMoreResults net now now' (s, st))) = currentPage s + 1"
    by (simp add: eq)
  show "allUsers (fst (loadMoreResults net now now' (s, st))) = Some (xs @ us)"
    by (simp add: eq)
  show "filteredUsers (fst (loadMoreResults net now now' (s, st))) = Some (ys @ us)"
    by (simp add: eq)
  show hm: "hasMoreResults (fst (loadMoreResults net now now' (s, st)))
                  = (int (length us) = 50
                     \<and> (case total_count result of
                           None \<Rightarrow> False
                         | Some n \<Rightarrow> (currentPage s + 1) * 50 < min n 1000))"
    by (simp add: eq)
  show "(currentPage s + 1) * 50 < 1000"
    if "hasMoreResults (fst (loadMoreResults net now now' (s, st)))"
    using that hm by (auto split: option.splits)
  show "length (xs @ us) = length xs + 50" if "length us = 50"
    using that by simp
qed

lemma search_url_linux_page_2:
  "search_url (text_search_filters ''linux'' default_filters) 2 50
     = ''https://api.github.com/search/users?q=linux+type%3Auser&sort=followers&order=desc&page=2&per_page=50''"
  by (simp add: search_url_def text_search_filters_def default_filters_def build_query_unfold
      truthy_str_def truthy_num_def GITHUB_API_BASE_def form_encode_def encode_char_def
      percent_byte_def Let_def url_safe_def hex_char_def eval_toString)

text \<open>Scenario E: page 2 of the search for \<^verbatim>\<open>linux\<close>, 50 records of 500.\<close>

lemma load_more_scenario_E:
  "loadMoreResults (answers 200 ''OK'' rate_headers (Inr second_page)) 0 5
        (first_page_state, empty_storage)
     = (first_page_state\<lparr>allUsers := Some (replicate 50 torvalds @ replicate 50 octocat),
          filteredUsers := Some (replicate 50 torvalds @ replicate 50 octocat),
          currentPage := 2,
          rateLimit := Some \<lparr>remaining = Some 4999, reset = Some 1700000000000,
                              total_limit = Some 5000\<rparr>\<rparr>,
        \<lparr>cache = [getCacheKey ''https://api.github.com/search/users?q=linux+type%3Auser&sort=followers&order=desc&page=2&per_page=50''
                    \<mapsto> Entry second_page 5],
         rate_limit = Some \<lparr>remaining = Some 4999, reset = Some 1700000000000,
                            total_limit = Some 5000\<rparr>,
         writable = True\<rparr>,
        [''https://api.github.com/search/users?q=linux+type%3Auser&sort=followers&order=desc&page=2&per_page=50''])"
proof -
  let ?net = "answers 200 ''OK'' rate_headers (Inr second_page) :: string \<Rightarrow> search_body exchange"
  have s: "hasMoreResults first_page_state" "\<not> isLoading first_page_state"
    "currentPage first_page_state = 1"
    by (simp_all add: first_page_state_def)
  have q: "trim (searchQuery first_page_state) = ''linux''"
    "filters first_page_state = default_filters"
    by (simp_all add: first_page_state_def trim_linux)
  have api: "api_searchUsers ?net 0 5 (text_search_filters ''linux'' default_filters) 2 50
               empty_storage
             = (Inr \<lparr>users = Some (replicate 50 octocat), total_count = Some 500,
                     incomplete_results = Some False\<rparr>,
                \<lparr>cache = [getCacheKey (search_url (text_search_filters ''linux'' default_filters) 2 50)
                            \<mapsto> Entry second_page 5],
                 rate_limit = Some \<lparr>remaining = Some 4999, reset = Some 1700000000000,
                            total_limit = Some 5000\<rparr>,
                 writable = True\<rparr>,
                [search_url (text_search_filters ''linux'' default_filters) 2 50])"
    by (simp add: api_searchUsers_def fetch_ok_body, simp add: second_page_def)
  have "loadMoreResults ?net 0 5 (first_page_state, empty_storage)
          = searchUsers ?net 0 5 2 True (first_page_state\<lparr>currentPage := 2\<rparr>, empty_storage)"
    using loadMoreResults_unfold [OF s(1) s(2), of ?net 0 5 empty_storage] by (simp add: s(3))
  also have "\<dots> = (first_page_state\<lparr>allUsers := Some (replicate 50 torvalds @ replicate 50 octocat),
          filteredUsers := Some (replicate 50 torvalds @ replicate 50 octocat),
          currentPage := 2,
          rateLimit := Some \<lparr>remaining = Some 4999, reset = Some 1700000000000,
                              total_limit = Some 5000\<rparr>\<rparr>,
        \<lparr>cache = [getCacheKey (search_url (text_search_filters ''linux'' default_filters) 2 50)
                    \<mapsto> Entry second_page 5],
         rate_limit = Some \<lparr>remaining = Some 4999, reset = Some 1700000000000,
                            total_limit = Some 5000\<rparr>,
         writable = True\<rparr>,
        [search_url (text_search_filters ''linux'' default_filters) 2 50])"
    by (simp add: searchUsers_def q api Let_def,
        simp add: first_page_state_def run_append_updaters_def getRateLimit_def)
  finally show ?thesis
    by (simp only: search_url_linux_page_2)
qed

text \<open>
  Claim C9. With a blank search box the action does not do what the claim says: while more
  results are on offer and nothing is loading, it increments the page counter and returns at
  the blank-text guard of the search callback, so that no exchange is started and no record is
  appended, whatever the provider would answer.
\<close>

theorem load_more_blank_box:
  assumes "hasMoreResults s" and "\<not> isLoading s" and "trim (searchQuery s) = []"
  shows "loadMoreResults net now now' (s, st) = (s\<lparr>currentPage := currentPage s + 1\<rparr>, st, [])"
  using assms by (simp add: loadMoreResults_def Let_def searchUsers_def)

text \<open>
  The view shows the first page of the search for \<^verbatim>\<open>linux\<close>, 50 records of 500, and the
  provider would serve page 2. With the search box emptied, and with a no-break space typed
  into it, load more leaves the 50 records as they are and moves the page counter to 2.
\<close>

theorem load_more_blank_box_witness:
  "hasMoreResults (first_page_state\<lparr>searchQuery := []\<rparr>)
   \<and> \<not> isLoading (first_page_state\<lparr>searchQuery := []\<rparr>)
   \<and> loadMoreResults (answers 200 ''OK'' rate_headers (Inr second_page)) 0 5
        (first_page_state\<lparr>searchQuery := []\<rparr>, empty_storage)
       = (first_page_state\<lparr>searchQuery := [], currentPage := 2\<rparr>, empty_storage, [])
   \<and> allUsers (fst (loadMoreResults (answers 200 ''OK'' rate_headers (Inr second_page)) 0 5
        (first_page_state\<lparr>searchQuery := []\<rparr>, empty_storage))) = Some (replicate 50 torvalds)
   \<and> loadMoreResults (answers 200 ''OK'' rate_headers (Inr second_page)) 0 5
        (first_page_state\<lparr>searchQuery := [CHR 0xA0]\<rparr>, empty_storage)
       = (first_page_state\<lparr>searchQuery := [CHR 0xA0], currentPage := 2\<rparr>, empty_storage, [])"
proof -
  let ?net = "answers 200 ''OK'' rate_headers (Inr second_page) :: string \<Rightarrow> search_body exchange"
  have h: "hasMoreResults (first_page_state\<lparr>searchQuery := []\<rparr>)"
    "\<not> isLoading (first_page_state\<lparr>searchQuery := []\<rparr>)"
    "trim (searchQuery (first_page_state\<lparr>searchQuery := []\<rparr>)) = []"
    "hasMoreResults (first_page_state\<lparr>searchQuery := [CHR 0xA0]\<rparr>)"
    "\<not> isLoading (first_page_state\<lparr>searchQuery := [CHR 0xA0]\<rparr>)"
    "trim (searchQuery (first_page_state\<lparr>searchQuery := [CHR 0xA0]\<rparr>)) = []"
    by (simp_all add: first_page_state_def trim_def is_space_def)
  have c: "currentPage first_page_state = 1"
    "allUsers first_page_state = Some (replicate 50 torvalds)"
    by (simp_all add: first_page_state_def)
  show ?thesis
    using load_more_blank_box [where s = "first_page_state\<lparr>searchQuery := []\<rparr>" and net = ?net
        and now = 0 and now' = 5 and st = empty_storage, OF h(1) h(2) h(3)]
      load_more_blank_box [where s = "first_page_state\<lparr>searchQuery := [CHR 0xA0]\<rparr>"
        and net = ?net and now = 0 and now' = 5 and st = empty_storage, OF h(4) h(5) h(6)]
    by (simp add: h(1) h(2) c)
qed

end
